theory Spec2Isabelle
  imports Complex_Main
begin

section \<open>Nola Analytics: the query compiler of \<^verbatim>\<open>backend/main.py\<close>\<close>

text \<open>
  The development embeds the \<^verbatim>\<open>/query\<close> endpoint of \<^verbatim>\<open>backend/main.py\<close>: the table
  cache (\<^verbatim>\<open>get_table\<close>, \<^verbatim>\<open>TABLE_CACHE\<close>), the filter compiler
  (\<^verbatim>\<open>_apply_filter_clause\<close>) and the body of \<^verbatim>\<open>query\<close>.

  The program builds its statement through an SQL toolkit. The calls it makes
  (column operators, \<^verbatim>\<open>text(...)\<close>, \<^verbatim>\<open>func.count(...)\<close>, \<^verbatim>\<open>.label(...)\<close>,
  \<^verbatim>\<open>Table(..., autoload_with=...)\<close>) are modelled by functions of their own, each
  with what the toolkit does on the arguments the program can pass: which operand
  becomes a bound parameter, which becomes a constant of SQL, and which call raises.
  The database and the string functions of Python that depend on Unicode tables are
  fields of an environment record. Every connection opened for a reflection and
  every statement sent to the database is logged in an I/O trace.
\<close>

subsection \<open>Values and strings\<close>

text \<open>
  A request value has the type \<^verbatim>\<open>Any\<close>: whatever the JSON body holds. Numbers with a
  fraction are opaque to the program and carried as reals.
\<close>

datatype pyval =
    PNone
  | PBool bool
  | PInt int
  | PFloat real
  | PStr string
  | PList "pyval list"
  | PDict "(string \<times> pyval) list"

text \<open>\<^verbatim>\<open>isinstance(v, list)\<close>\<close>

fun isinstance_list :: "pyval \<Rightarrow> bool" where
  "isinstance_list (PList xs) = True"
| "isinstance_list v = False"

text \<open>\<^verbatim>\<open>isinstance(v, (type(None), bool))\<close>: the values the toolkit treats as constants.\<close>

fun is_none_or_bool :: "pyval \<Rightarrow> bool" where
  "is_none_or_bool PNone = True"
| "is_none_or_bool (PBool b) = True"
| "is_none_or_bool v = False"

text \<open>Lists and dictionaries cannot be hashed; every other value can.\<close>

fun hashable :: "pyval \<Rightarrow> bool" where
  "hashable (PList xs) = False"
| "hashable (PDict kvs) = False"
| "hashable v = True"

text \<open>
  A Python string is modelled by its UTF-8 encoding, a list of 8-bit characters.
  Equality, concatenation and the search for an ASCII substring are the same on
  both. \<^verbatim>\<open>sub in s\<close>: \<^verbatim>\<open>sub\<close> occurs in \<^verbatim>\<open>s\<close> as a contiguous run.
\<close>

fun starts_with :: "string \<Rightarrow> string \<Rightarrow> bool" where
  "starts_with [] s = True"
| "starts_with (p # ps) [] = False"
| "starts_with (p # ps) (c # cs) = (p = c \<and> starts_with ps cs)"

fun contains :: "string \<Rightarrow> string \<Rightarrow> bool" where
  "contains sub [] = (sub = [])"
| "contains sub (c # cs) = (starts_with sub (c # cs) \<or> contains sub cs)"

text \<open>\<^verbatim>\<open>s.count(" ")\<close>: the number of space characters of \<^verbatim>\<open>s\<close>.\<close>

definition count_spaces :: "string \<Rightarrow> nat" where
  "count_spaces s = count_list s (CHR '' '')"

text \<open>Truthiness of an \<^verbatim>\<open>Optional[str]\<close>: \<^verbatim>\<open>None\<close> and the empty string are falsy.\<close>

fun truthy_str :: "string option \<Rightarrow> bool" where
  "truthy_str None = False"
| "truthy_str (Some s) = (s \<noteq> [])"

text \<open>Truthiness of an \<^verbatim>\<open>Optional[int]\<close>: \<^verbatim>\<open>None\<close> and \<^verbatim>\<open>0\<close> are falsy.\<close>

fun truthy_int :: "int option \<Rightarrow> bool" where
  "truthy_int None = False"
| "truthy_int (Some n) = (n \<noteq> 0)"

text \<open>Truthiness of an \<^verbatim>\<open>Optional[List[...]]\<close>: \<^verbatim>\<open>None\<close> and \<^verbatim>\<open>[]\<close> are falsy.\<close>

fun items :: "'a list option \<Rightarrow> 'a list" where
  "items None = []"
| "items (Some xs) = xs"

subsection \<open>Request models\<close>

text \<open>
  The three request classes. The fields of \<^verbatim>\<open>Metric\<close> and \<^verbatim>\<open>FilterItem\<close> carry a
  prefix, since both classes have an \<^verbatim>\<open>op\<close> and a \<^verbatim>\<open>column\<close>.
\<close>

record Metric =
  m_op :: string
  m_column :: "string option"
  m_alias :: "string option"

record FilterItem =
  f_column :: string
  f_op :: string
  f_value :: pyval

record QueryRequest =
  table :: string
  group_by :: "string list option"
  metrics :: "Metric list option"
  filters :: "FilterItem list option"
  limit :: "int option"

text \<open>
  A field of the request body is either missing or given, and a given optional
  field may be \<^verbatim>\<open>null\<close>. The class declares \<^verbatim>\<open>None\<close> as the default of
  \<^verbatim>\<open>group_by\<close>, \<^verbatim>\<open>metrics\<close> and \<^verbatim>\<open>filters\<close>, and \<^verbatim>\<open>1000\<close> as the default of
  \<^verbatim>\<open>limit\<close>.
\<close>

datatype 'a field = Absent | Given 'a

fun field_default :: "'a \<Rightarrow> 'a field \<Rightarrow> 'a" where
  "field_default d Absent = d"
| "field_default d (Given v) = v"

definition QueryRequest_init ::
  "string \<Rightarrow> string list option field \<Rightarrow> Metric list option field \<Rightarrow>
   FilterItem list option field \<Rightarrow> int option field \<Rightarrow> QueryRequest" where
  "QueryRequest_init t g m f l =
     \<lparr>table = t,
      group_by = field_default None g,
      metrics = field_default None m,
      filters = field_default None f,
      limit = field_default (Some 1000) l\<rparr>"

subsection \<open>Reflected tables and SQL expressions\<close>

record Column =
  col_name :: string
  col_type :: string

record Table =
  tbl_name :: string
  tbl_c :: "Column list"

text \<open>\<^verbatim>\<open>tbl.c.get(name)\<close>: the column of that name, or \<^verbatim>\<open>None\<close>.\<close>

definition c_get :: "Table \<Rightarrow> string \<Rightarrow> Column option" where
  "c_get tbl k = find (\<lambda>col. col_name col = k) (tbl_c tbl)"

datatype operator =
  Op_eq | Op_ne | Op_gt | Op_lt | Op_ge | Op_le | Op_in | Op_like | Op_is | Op_is_not

text \<open>
  The expression objects of the toolkit. \<open>TextClause s names\<close> is \<^verbatim>\<open>text(s)\<close>: the
  literal SQL text \<open>s\<close> together with the names the toolkit has read in it as
  \<^verbatim>\<open>:name\<close> placeholders, each a bind parameter that has no value yet.
  \<open>BindParameter v\<close> is a value that travels beside the statement as a parameter.
  \<open>Null\<close>, \<open>SqlTrue\<close> and \<open>SqlFalse\<close> are the constants \<^verbatim>\<open>NULL\<close>, \<^verbatim>\<open>true\<close> and
  \<^verbatim>\<open>false\<close> of SQL; they bind nothing.
  \<open>ClauseList\<close> is a list of expressions, as the right side of \<^verbatim>\<open>IN\<close>.
\<close>

datatype sql_expr =
    ColumnClause Column
  | TextClause string "string list"
  | BindParameter pyval
  | Null
  | SqlTrue
  | SqlFalse
  | ClauseList "sql_expr list"
  | BinaryExpression sql_expr operator sql_expr
  | FunctionElement string "sql_expr list"
  | Label sql_expr string

text \<open>
  Three observations on an expression: the literal SQL text fragments it was given,
  the request values it binds, and the bind parameters it has that have no value.
\<close>

fun text_fragments :: "sql_expr \<Rightarrow> string list" where
  "text_fragments (ColumnClause col) = []"
| "text_fragments (TextClause s names) = [s]"
| "text_fragments (BindParameter v) = []"
| "text_fragments Null = []"
| "text_fragments SqlTrue = []"
| "text_fragments SqlFalse = []"
| "text_fragments (ClauseList xs) = concat (map text_fragments xs)"
| "text_fragments (BinaryExpression l oper r) = text_fragments l @ text_fragments r"
| "text_fragments (FunctionElement f args) = concat (map text_fragments args)"
| "text_fragments (Label ex a) = text_fragments ex"

fun bound_values :: "sql_expr \<Rightarrow> pyval list" where
  "bound_values (ColumnClause col) = []"
| "bound_values (TextClause s names) = []"
| "bound_values (BindParameter v) = [v]"
| "bound_values Null = []"
| "bound_values SqlTrue = []"
| "bound_values SqlFalse = []"
| "bound_values (ClauseList xs) = concat (map bound_values xs)"
| "bound_values (BinaryExpression l oper r) = bound_values l @ bound_values r"
| "bound_values (FunctionElement f args) = concat (map bound_values args)"
| "bound_values (Label ex a) = bound_values ex"

fun required_params :: "sql_expr \<Rightarrow> string list" where
  "required_params (ColumnClause col) = []"
| "required_params (TextClause s names) = names"
| "required_params (BindParameter v) = []"
| "required_params Null = []"
| "required_params SqlTrue = []"
| "required_params SqlFalse = []"
| "required_params (ClauseList xs) = concat (map required_params xs)"
| "required_params (BinaryExpression l oper r) = required_params l @ required_params r"
| "required_params (FunctionElement f args) = concat (map required_params args)"
| "required_params (Label ex a) = required_params ex"

text \<open>
  The statement: \<^verbatim>\<open>select(*columns).select_from(tbl)\<close> with its \<^verbatim>\<open>where\<close>,
  \<^verbatim>\<open>group_by\<close> and \<^verbatim>\<open>limit\<close> parts.
\<close>

record Select =
  columns :: "sql_expr list"
  select_from :: Table
  whereclauses :: "sql_expr list"
  group_by_clauses :: "sql_expr list"
  limit_clause :: "int option"

text \<open>
  What a call can raise: the \<^verbatim>\<open>HTTPException\<close> of the program, with status and
  detail, and the two exceptions of the toolkit and of Python that the filter compiler
  can meet. The framework answers an \<^verbatim>\<open>HTTPException\<close> with its status and every
  other exception that leaves the handler with status 500.
\<close>

datatype exn = HTTPException nat string | ArgumentError | TypeError


subsection \<open>The environment and the process state\<close>

text \<open>
  \<^item> \<open>lower\<close> is \<^verbatim>\<open>str.lower()\<close> and \<open>str\<close> is \<^verbatim>\<open>str(...)\<close> on request values.
  \<^item> \<open>bind_names\<close> gives the names that \<^verbatim>\<open>text(s)\<close> reads in \<open>s\<close> as \<^verbatim>\<open>:name\<close>
    placeholders (the toolkit's regular expression on Unicode word characters).
  \<^item> \<open>tables\<close> is the catalog of the database.
  \<^item> \<open>connect\<close> is the entry of \<^verbatim>\<open>engine.begin()\<close>: \<open>None\<close> when a connection is
    obtained, or the message of the exception raised.
  \<^item> \<open>leave\<close> is the exit of that block (commit or rollback, release of the
    connection): \<open>None\<close>, or the message of the exception it raises.
  \<^item> \<open>no_inspection\<close> is the message of the toolkit's \<^verbatim>\<open>NoInspectionAvailable\<close>.
  \<^item> \<open>execute\<close> is the \<^verbatim>\<open>try\<close> block of \<^verbatim>\<open>query\<close>: the rows of
    \<^verbatim>\<open>session.execute(stmt)\<close> as dictionaries, or the message of the exception raised.
\<close>

type_synonym row = "(string \<times> pyval) list"

record env =
  lower :: "string \<Rightarrow> string"
  str :: "pyval \<Rightarrow> string"
  bind_names :: "string \<Rightarrow> string list"
  tables :: "string \<rightharpoonup> Table"
  connect :: "string option"
  leave :: "string option"
  no_inspection :: string
  execute :: "Select \<Rightarrow> string + row list"

datatype io_event = Reflect string | Execute Select

record state =
  TABLE_CACHE :: "string \<rightharpoonup> Table"
  io :: "io_event list"

text \<open>The state of a fresh process: \<^verbatim>\<open>TABLE_CACHE = {}\<close>, nothing done yet.\<close>

definition init_state :: state where
  "init_state = \<lparr>TABLE_CACHE = Map.empty, io = []\<rparr>"

subsection \<open>The calls into the toolkit\<close>

text \<open>
  \<^verbatim>\<open>Table(table_name, MetaData(), autoload_with=conn)\<close> for the connection that
  \<^verbatim>\<open>engine.begin()\<close> of an asynchronous engine yields. The toolkit cannot inspect an
  asynchronous connection: the call raises \<^verbatim>\<open>NoInspectionAvailable\<close>, whatever the
  catalog holds.
\<close>

definition Table_autoload :: "env \<Rightarrow> string \<Rightarrow> string + Table" where
  "Table_autoload e table_name = Inl (no_inspection e)"

text \<open>\<^verbatim>\<open>text(g)\<close>\<close>

definition text_clause :: "env \<Rightarrow> string \<Rightarrow> sql_expr" where
  "text_clause e g = TextClause g (bind_names e g)"

text \<open>
  \<^verbatim>\<open>col == v\<close> and \<^verbatim>\<open>col != v\<close>. \<^verbatim>\<open>None\<close> gives \<^verbatim>\<open>IS NULL\<close> and \<^verbatim>\<open>IS NOT NULL\<close>,
  a Boolean is compared as the constant \<^verbatim>\<open>true\<close> or \<^verbatim>\<open>false\<close>, every other value is
  bound.
\<close>

fun column_eq :: "Column \<Rightarrow> pyval \<Rightarrow> sql_expr" where
  "column_eq col PNone = BinaryExpression (ColumnClause col) Op_is Null"
| "column_eq col (PBool b) = BinaryExpression (ColumnClause col) Op_eq (if b then SqlTrue else SqlFalse)"
| "column_eq col v = BinaryExpression (ColumnClause col) Op_eq (BindParameter v)"

fun column_ne :: "Column \<Rightarrow> pyval \<Rightarrow> sql_expr" where
  "column_ne col PNone = BinaryExpression (ColumnClause col) Op_is_not Null"
| "column_ne col (PBool b) = BinaryExpression (ColumnClause col) Op_ne (if b then SqlTrue else SqlFalse)"
| "column_ne col v = BinaryExpression (ColumnClause col) Op_ne (BindParameter v)"

text \<open>
  \<^verbatim>\<open>col > v\<close>, \<^verbatim>\<open>col < v\<close>, \<^verbatim>\<open>col >= v\<close>, \<^verbatim>\<open>col <= v\<close>, the operator being given. On
  \<^verbatim>\<open>None\<close>, \<^verbatim>\<open>True\<close> and \<^verbatim>\<open>False\<close> the toolkit raises \<^verbatim>\<open>ArgumentError\<close>; every other
  value is bound.
\<close>

definition column_cmp :: "operator \<Rightarrow> Column \<Rightarrow> pyval \<Rightarrow> exn + sql_expr" where
  "column_cmp oper col v =
     (if is_none_or_bool v then Inl ArgumentError
      else Inr (BinaryExpression (ColumnClause col) oper (BindParameter v)))"

text \<open>
  \<^verbatim>\<open>col.in_(xs)\<close> for a list. Without a \<^verbatim>\<open>None\<close> among the elements the whole list is
  one bound parameter. With one, the right side is a list of expressions,
  \<^verbatim>\<open>NULL\<close> for \<^verbatim>\<open>None\<close> and a bound parameter for every other element; the toolkit
  looks each element up in a dictionary on the way, which raises \<^verbatim>\<open>TypeError\<close> for
  an element that cannot be hashed.
\<close>

definition column_in :: "Column \<Rightarrow> pyval list \<Rightarrow> exn + sql_expr" where
  "column_in col xs =
     (if PNone \<notin> set xs then
        Inr (BinaryExpression (ColumnClause col) Op_in (BindParameter (PList xs)))
      else if \<exists>x \<in> set xs. \<not> hashable x then Inl TypeError
      else Inr (BinaryExpression (ColumnClause col) Op_in
                  (ClauseList (map (\<lambda>x. if x = PNone then Null else BindParameter x) xs))))"

text \<open>\<^verbatim>\<open>col.like(s)\<close> for a string: the pattern is bound.\<close>

definition column_like :: "Column \<Rightarrow> string \<Rightarrow> sql_expr" where
  "column_like col s = BinaryExpression (ColumnClause col) Op_like (BindParameter (PStr s))"

text \<open>
  \<^verbatim>\<open>func.count()\<close> is \<^verbatim>\<open>count(*)\<close>, written here as the function without arguments.
  \<^verbatim>\<open>func.count(x)\<close> for \<^verbatim>\<open>x = tbl.c.get(...)\<close>: with \<^verbatim>\<open>None\<close> the toolkit builds the
  same \<^verbatim>\<open>count(*)\<close>.
\<close>

definition func_count_all :: sql_expr where
  "func_count_all = FunctionElement ''count'' []"

fun func_count :: "Column option \<Rightarrow> sql_expr" where
  "func_count None = FunctionElement ''count'' []"
| "func_count (Some col) = FunctionElement ''count'' [ColumnClause col]"

subsection \<open>\<^verbatim>\<open>get_table\<close>\<close>

text \<open>
  The cache is written inside the block of \<^verbatim>\<open>engine.begin()\<close>; the block is left after
  that, and leaving it may raise.
\<close>

definition get_table :: "env \<Rightarrow> string \<Rightarrow> state \<Rightarrow> (string + Table) \<times> state" where
  "get_table e table_name st =
     (case TABLE_CACHE st table_name of
        Some tbl \<Rightarrow> (Inr tbl, st)
      | None \<Rightarrow>
          (let st1 = st\<lparr>io := io st @ [Reflect table_name]\<rparr> in
           case connect e of
             Some err \<Rightarrow> (Inl err, st1)
           | None \<Rightarrow>
               (case Table_autoload e table_name of
                  Inl err \<Rightarrow> (Inl (case leave e of None \<Rightarrow> err | Some err' \<Rightarrow> err'), st1)
                | Inr tbl \<Rightarrow>
                    (let st2 = st1\<lparr>TABLE_CACHE := (TABLE_CACHE st1)(table_name \<mapsto> tbl)\<rparr> in
                     case leave e of
                       None \<Rightarrow> (Inr tbl, st2)
                     | Some err \<Rightarrow> (Inl err, st2)))))"

text \<open>A sequence of resolutions, each against the database of its moment.\<close>

fun resolutions :: "(env \<times> string) list \<Rightarrow> state \<Rightarrow> state" where
  "resolutions [] st = st"
| "resolutions ((e, n) # rest) st = resolutions rest (snd (get_table e n st))"

subsection \<open>\<^verbatim>\<open>_apply_filter_clause\<close>\<close>

definition apply_filter_clause :: "env \<Rightarrow> Table \<Rightarrow> FilterItem \<Rightarrow> exn + sql_expr" where
  "apply_filter_clause e tbl f =
     (case c_get tbl (f_column f) of
        None \<Rightarrow> Inl (HTTPException 400 (''Unknown column: '' @ f_column f))
      | Some col \<Rightarrow>
          (let oper = lower e (f_op f) in
           if oper = ''='' \<or> oper = ''eq'' then Inr (column_eq col (f_value f))
           else if oper = ''!='' \<or> oper = ''ne'' then Inr (column_ne col (f_value f))
           else if oper = ''>'' then column_cmp Op_gt col (f_value f)
           else if oper = ''<'' then column_cmp Op_lt col (f_value f)
           else if oper = ''>='' then column_cmp Op_ge col (f_value f)
           else if oper = ''<='' then column_cmp Op_le col (f_value f)
           else if oper = ''in'' then
             (case f_value f of
                PList xs \<Rightarrow> column_in col xs
              | _ \<Rightarrow> Inl (HTTPException 400 ''Value for 'in' must be a list''))
           else if oper = ''like'' then Inr (column_like col (str e (f_value f)))
           else Inl (HTTPException 400 (''Unsupported filter op: '' @ f_op f))))"

subsection \<open>\<^verbatim>\<open>query\<close>\<close>

text \<open>The test of the grouping loop: \<^verbatim>\<open>"(" in g or "::" in g or g.count(" ")>0\<close>.\<close>

definition is_raw :: "string \<Rightarrow> bool" where
  "is_raw g \<longleftrightarrow> contains ''('' g \<or> contains ''::'' g \<or> count_spaces g > 0"

text \<open>The grouping loop, \<open>group_cols\<close> being the list built so far.\<close>

fun group_loop :: "env \<Rightarrow> Table \<Rightarrow> string list \<Rightarrow> sql_expr list \<Rightarrow> exn + sql_expr list" where
  "group_loop e tbl [] group_cols = Inr group_cols"
| "group_loop e tbl (g # gs) group_cols =
     (if is_raw g then group_loop e tbl gs (group_cols @ [text_clause e g])
      else case c_get tbl g of
             None \<Rightarrow> Inl (HTTPException 400 (''Unknown group_by column: '' @ g))
           | Some col \<Rightarrow> group_loop e tbl gs (group_cols @ [ColumnClause col]))"

text \<open>The body of the metrics loop: the labelled expression of one metric.\<close>

definition metric_expr :: "env \<Rightarrow> Table \<Rightarrow> Metric \<Rightarrow> exn + sql_expr" where
  "metric_expr e tbl m =
     (let oper = lower e (m_op m);
          name = (if truthy_str (m_alias m) then the (m_alias m)
                  else oper @ ''_'' @ (if truthy_str (m_column m) then the (m_column m) else ''all''))
      in
      if oper = ''count'' then
        Inr (Label (if \<not> truthy_str (m_column m) then func_count_all
                    else func_count (c_get tbl (the (m_column m))))
                   name)
      else if \<not> truthy_str (m_column m) then
        Inl (HTTPException 400 (''Metric '' @ m_op m @ '' needs a column''))
      else
        (case c_get tbl (the (m_column m)) of
           None \<Rightarrow> Inl (HTTPException 400 (''Unknown metric column: '' @ the (m_column m)))
         | Some col \<Rightarrow>
             if oper = ''sum'' then Inr (Label (FunctionElement ''sum'' [ColumnClause col]) name)
             else if oper = ''avg'' then Inr (Label (FunctionElement ''avg'' [ColumnClause col]) name)
             else if oper = ''max'' then Inr (Label (FunctionElement ''max'' [ColumnClause col]) name)
             else if oper = ''min'' then Inr (Label (FunctionElement ''min'' [ColumnClause col]) name)
             else Inl (HTTPException 400 (''Unsupported metric op: '' @ m_op m))))"

fun metrics_loop :: "env \<Rightarrow> Table \<Rightarrow> Metric list \<Rightarrow> sql_expr list \<Rightarrow> exn + sql_expr list" where
  "metrics_loop e tbl [] sel_cols = Inr sel_cols"
| "metrics_loop e tbl (m # ms) sel_cols =
     (case metric_expr e tbl m of
        Inl h \<Rightarrow> Inl h
      | Inr ex \<Rightarrow> metrics_loop e tbl ms (sel_cols @ [ex]))"

text \<open>The list comprehension over the filters: the first failure ends it.\<close>

fun filter_clauses :: "env \<Rightarrow> Table \<Rightarrow> FilterItem list \<Rightarrow> exn + sql_expr list" where
  "filter_clauses e tbl [] = Inr []"
| "filter_clauses e tbl (f # fs) =
     (case apply_filter_clause e tbl f of
        Inl h \<Rightarrow> Inl h
      | Inr cl \<Rightarrow> (case filter_clauses e tbl fs of
                    Inl h \<Rightarrow> Inl h
                  | Inr cls \<Rightarrow> Inr (cl # cls)))"

text \<open>
  The part of \<^verbatim>\<open>query\<close> between the resolution of the table and the execution:
  grouping, metrics, filters, limit, in the order of the source.
\<close>

definition build_statement :: "env \<Rightarrow> Table \<Rightarrow> QueryRequest \<Rightarrow> exn + Select" where
  "build_statement e tbl req =
     (case group_loop e tbl (items (group_by req)) [] of
        Inl h \<Rightarrow> Inl h
      | Inr group_cols \<Rightarrow>
          (case metrics_loop e tbl (items (metrics req)) [] of
             Inl h \<Rightarrow> Inl h
           | Inr sel_cols0 \<Rightarrow>
               (let sel_cols = (if sel_cols0 = [] then [Label (FunctionElement ''count'' []) ''count'']
                                else sel_cols0)
                in case filter_clauses e tbl (items (filters req)) of
                     Inl h \<Rightarrow> Inl h
                   | Inr clauses \<Rightarrow>
                       Inr \<lparr>columns = group_cols @ sel_cols,
                            select_from = tbl,
                            whereclauses = clauses,
                            group_by_clauses = group_cols,
                            limit_clause = (if truthy_int (limit req) then limit req else None)\<rparr>)))"

text \<open>
  \<^verbatim>\<open>query\<close> once the table is resolved (lines 89 to 149): the statement is built, then
  sent to the database inside the \<^verbatim>\<open>try\<close> block.
\<close>

definition query_body :: "env \<Rightarrow> Table \<Rightarrow> QueryRequest \<Rightarrow> state \<Rightarrow> (exn + row list) \<times> state" where
  "query_body e tbl req st =
     (case build_statement e tbl req of
        Inl h \<Rightarrow> (Inl h, st)
      | Inr stmt \<Rightarrow>
          (let st2 = st\<lparr>io := io st @ [Execute stmt]\<rparr> in
           case execute e stmt of
             Inl err \<Rightarrow> (Inl (HTTPException 500 err), st2)
           | Inr rows \<Rightarrow> (Inr rows, st2)))"

definition query :: "env \<Rightarrow> QueryRequest \<Rightarrow> state \<Rightarrow> (exn + row list) \<times> state" where
  "query e req st =
     (case get_table e (table req) st of
        (Inl err, st1) \<Rightarrow>
          (Inl (HTTPException 400 (''Table not found or reflection error: '' @ err)), st1)
      | (Inr tbl, st1) \<Rightarrow> query_body e tbl req st1)"

subsection \<open>Observations on traces and statements\<close>

text \<open>The statements a trace has sent to the database, oldest first.\<close>

fun executed_of :: "io_event list \<Rightarrow> Select list" where
  "executed_of [] = []"
| "executed_of (Reflect n # evs) = executed_of evs"
| "executed_of (Execute s # evs) = s # executed_of evs"

definition executed :: "state \<Rightarrow> Select list" where
  "executed st = executed_of (io st)"


text \<open>
  The expression with every bound value blanked: what is left is all that can reach
  the SQL text.
\<close>

fun skeleton :: "sql_expr \<Rightarrow> sql_expr" where
  "skeleton (ColumnClause col) = ColumnClause col"
| "skeleton (TextClause s names) = TextClause s names"
| "skeleton (BindParameter v) = BindParameter PNone"
| "skeleton Null = Null"
| "skeleton SqlTrue = SqlTrue"
| "skeleton SqlFalse = SqlFalse"
| "skeleton (ClauseList xs) = ClauseList (map skeleton xs)"
| "skeleton (BinaryExpression l oper r) = BinaryExpression (skeleton l) oper (skeleton r)"
| "skeleton (FunctionElement f args) = FunctionElement f (map skeleton args)"
| "skeleton (Label ex a) = Label (skeleton ex) a"

text \<open>
  The classification of a grouping specifier in the words of the specification: raw if
  it contains a parenthesis, the type-cast marker \<^verbatim>\<open>::\<close> or a whitespace character
  (space, tab, line feed, vertical tab, form feed, carriage return).
\<close>

definition whitespace :: "char list" where
  "whitespace = [CHR '' '', CHR 0x09, CHR 0x0A, CHR 0x0B, CHR 0x0C, CHR 0x0D]"

definition spec_is_raw :: "string \<Rightarrow> bool" where
  "spec_is_raw g \<longleftrightarrow>
     list_ex (\<lambda>ch. ch = CHR ''('' \<or> ch = CHR '')'') g \<or> contains ''::'' g \<or>
     list_ex (\<lambda>ch. ch \<in> set whitespace) g"

text \<open>
  What the grouping loop makes of one specifier: \<^verbatim>\<open>text\<close> of the specifier when it is
  raw, the column of that name otherwise, which then has to exist.
\<close>

definition resolves :: "env \<Rightarrow> Table \<Rightarrow> string \<Rightarrow> sql_expr \<Rightarrow> bool" where
  "resolves e tbl g x \<longleftrightarrow>
     (if is_raw g then x = text_clause e g
      else case c_get tbl g of None \<Rightarrow> False | Some col \<Rightarrow> x = ColumnClause col)"

text \<open>The value that a filter term binds when its value is not a constant of SQL.\<close>

definition operand :: "env \<Rightarrow> FilterItem \<Rightarrow> pyval" where
  "operand e f = (if lower e (f_op f) = ''like'' then PStr (str e (f_value f)) else f_value f)"

subsection \<open>An example environment\<close>

text \<open>
  A database with one table, \<^verbatim>\<open>sales\<close>. The string functions of the example agree
  with Python and the toolkit on ASCII text; \<open>demo_lower\<close> also maps the Kelvin sign
  (U+212A, the bytes E2 84 AA) to \<^verbatim>\<open>k\<close>, as \<^verbatim>\<open>str.lower()\<close> does.
\<close>

definition sales :: Table where
  "sales = \<lparr>tbl_name = ''sales'',
            tbl_c = [\<lparr>col_name = ''region'', col_type = ''VARCHAR''\<rparr>,
                     \<lparr>col_name = ''revenue'', col_type = ''NUMERIC''\<rparr>,
                     \<lparr>col_name = ''status'', col_type = ''VARCHAR''\<rparr>]\<rparr>"

fun demo_str :: "pyval \<Rightarrow> string" where
  "demo_str (PStr s) = s"
| "demo_str PNone = ''None''"
| "demo_str (PBool b) = (if b then ''True'' else ''False'')"
| "demo_str v = ''?''"

definition lower_char :: "char \<Rightarrow> char" where
  "lower_char c =
     (case map_of (zip ''ABCDEFGHIJKLMNOPQRSTUVWXYZ'' ''abcdefghijklmnopqrstuvwxyz'') c of
        None \<Rightarrow> c
      | Some d \<Rightarrow> d)"

fun demo_lower :: "string \<Rightarrow> string" where
  "demo_lower (a # b # c # rest) =
     (if a = CHR 0xE2 \<and> b = CHR 0x84 \<and> c = CHR 0xAA then CHR ''k'' # demo_lower rest
      else lower_char a # demo_lower (b # c # rest))"
| "demo_lower (a # rest) = lower_char a # demo_lower rest"
| "demo_lower [] = []"

text \<open>
  The scan of \<^verbatim>\<open>text\<close> for \<^verbatim>\<open>:name\<close> on ASCII text: a colon that does not follow a
  colon, a word character or a backslash, then word characters, not followed by a
  colon. A run of two or more word characters that is followed by a colon gives the
  run without its last character. The second argument is the character before the
  current one, the third the name being read.
\<close>

definition word_char :: "char \<Rightarrow> bool" where
  "word_char c \<longleftrightarrow> c \<in> set ''abcdefghijklmnopqrstuvwxyzABCDEFGHIJKLMNOPQRSTUVWXYZ0123456789_''"

definition may_precede :: "char option \<Rightarrow> bool" where
  "may_precede p \<longleftrightarrow>
     (case p of None \<Rightarrow> True
      | Some c \<Rightarrow> \<not> (c = CHR '':'' \<or> word_char c \<or> c = CHR 0x5C))"

fun scan_names :: "string \<Rightarrow> char option \<Rightarrow> string option \<Rightarrow> string list" where
  "scan_names [] prev None = []"
| "scan_names [] prev (Some w) = (if w = [] then [] else [w])"
| "scan_names (c # cs) prev None =
     (if c = CHR '':'' \<and> may_precede prev then scan_names cs (Some c) (Some [])
      else scan_names cs (Some c) None)"
| "scan_names (c # cs) prev (Some w) =
     (if word_char c then scan_names cs (Some c) (Some (w @ [c]))
      else if c = CHR '':'' then
        (if length w \<ge> 2 then butlast w # scan_names cs (Some c) None
         else scan_names cs (Some c) None)
      else if w = [] then scan_names cs (Some c) None
      else w # scan_names cs (Some c) None)"

definition demo_bind_names :: "string \<Rightarrow> string list" where
  "demo_bind_names s = rev (remdups (rev (scan_names s None None)))"

definition demo_env :: env where
  "demo_env = \<lparr>lower = demo_lower, str = demo_str, bind_names = demo_bind_names,
               tables = [''sales'' \<mapsto> sales], connect = None, leave = None,
               no_inspection = ''Inspection on an AsyncConnection is currently not supported.'',
               execute = (\<lambda>stmt. Inr [])\<rparr>"

text \<open>The same database when it refuses every connection.\<close>

definition down_env :: env where
  "down_env = demo_env\<lparr>connect := Some ''connection refused'',
                        execute := (\<lambda>stmt. Inl ''connection refused'')\<rparr>"

text \<open>The same database when it fails every statement.\<close>

definition flaky_env :: env where
  "flaky_env = demo_env\<lparr>execute := (\<lambda>stmt. Inl ''connection lost'')\<rparr>"

section \<open>The table cache\<close>

lemma get_table_hit:
  "TABLE_CACHE st n = Some t \<Longrightarrow> get_table e n st = (Inr t, st)"
  by (simp add: get_table_def)

lemma get_table_miss:
  "TABLE_CACHE st n = None \<Longrightarrow>
   get_table e n st =
     (Inl (case connect e of
             Some err \<Rightarrow> err
           | None \<Rightarrow> (case leave e of None \<Rightarrow> no_inspection e | Some err' \<Rightarrow> err')),
      st\<lparr>io := io st @ [Reflect n]\<rparr>)"
  by (simp add: get_table_def Table_autoload_def split: option.splits)

lemma get_table_Inl:
  "fst (get_table e n st) = Inl err \<Longrightarrow>
   TABLE_CACHE st n = None \<and> snd (get_table e n st) = st\<lparr>io := io st @ [Reflect n]\<rparr>"
  by (cases "TABLE_CACHE st n") (simp_all add: get_table_hit get_table_miss)

lemma get_table_Inr:
  "fst (get_table e n st) = Inr t \<Longrightarrow> TABLE_CACHE st n = Some t \<and> snd (get_table e n st) = st"
  by (cases "TABLE_CACHE st n") (simp_all add: get_table_hit get_table_miss)

lemma get_table_cache: "TABLE_CACHE (snd (get_table e n st)) = TABLE_CACHE st"
  by (cases "TABLE_CACHE st n") (simp_all add: get_table_hit get_table_miss)

lemma resolutions_cache: "TABLE_CACHE (resolutions steps st) = TABLE_CACHE st"
proof (induction steps arbitrary: st)
  case Nil
  then show ?case by simp
next
  case (Cons a steps)
  obtain e n where a: "a = (e, n)" by (cases a)
  with Cons.IH [of "snd (get_table e n st)"] show ?case
    by (simp add: get_table_cache)
qed

lemma query_table_error:
  "fst (get_table e (table req) st) = Inl err \<Longrightarrow>
   query e req st =
     (Inl (HTTPException 400 (''Table not found or reflection error: '' @ err)),
      snd (get_table e (table req) st))"
  by (cases "get_table e (table req) st") (simp add: query_def)

lemma query_table_ok:
  "fst (get_table e (table req) st) = Inr tbl \<Longrightarrow>
   query e req st = query_body e tbl req (snd (get_table e (table req) st))"
  by (cases "get_table e (table req) st") (simp add: query_def)

section \<open>What a request does to the trace\<close>

lemma executed_of_append: "executed_of (a @ b) = executed_of a @ executed_of b"
  by (induction a rule: executed_of.induct) simp_all

lemma get_table_executed: "executed (snd (get_table e n st)) = executed st"
  by (cases "TABLE_CACHE st n")
     (simp_all add: get_table_hit get_table_miss executed_def executed_of_append)

lemma query_body_not_built:
  "build_statement e tbl req = Inl h \<Longrightarrow> query_body e tbl req st = (Inl h, st)"
  by (simp add: query_body_def)

lemma query_body_built:
  "build_statement e tbl req = Inr stmt \<Longrightarrow>
   fst (query_body e tbl req st) =
     (case execute e stmt of Inl err \<Rightarrow> Inl (HTTPException 500 err) | Inr rows \<Rightarrow> Inr rows)
   \<and> executed (snd (query_body e tbl req st)) = executed st @ [stmt]"
  by (simp add: query_body_def Let_def executed_def executed_of_append split: sum.splits)

section \<open>The parts of a built statement\<close>


lemma build_statement_parts:
  assumes "build_statement e tbl req = Inr stmt"
  shows "\<exists>group_cols sel_cols0.
     group_loop e tbl (items (group_by req)) [] = Inr group_cols \<and>
     metrics_loop e tbl (items (metrics req)) [] = Inr sel_cols0 \<and>
     filter_clauses e tbl (items (filters req)) = Inr (whereclauses stmt) \<and>
     columns stmt = group_cols @ (if sel_cols0 = [] then [Label (FunctionElement ''count'' []) ''count''] else sel_cols0) \<and>
     group_by_clauses stmt = group_cols \<and> select_from stmt = tbl \<and>
     limit_clause stmt = (if truthy_int (limit req) then limit req else None)"
proof (cases "group_loop e tbl (items (group_by req)) []")
  case (Inl h)
  with assms show ?thesis by (simp add: build_statement_def)
next
  case g: (Inr group_cols)
  show ?thesis
  proof (cases "metrics_loop e tbl (items (metrics req)) []")
    case (Inl h)
    with assms g show ?thesis by (simp add: build_statement_def)
  next
    case s: (Inr sel_cols0)
    show ?thesis
    proof (cases "filter_clauses e tbl (items (filters req))")
      case (Inl h)
      with assms g s show ?thesis by (simp add: build_statement_def Let_def)
    next
      case (Inr clauses)
      with assms g s have "stmt =
        \<lparr>columns = group_cols @ (if sel_cols0 = [] then [Label (FunctionElement ''count'' []) ''count''] else sel_cols0),
         select_from = tbl, whereclauses = clauses, group_by_clauses = group_cols,
         limit_clause = (if truthy_int (limit req) then limit req else None)\<rparr>"
        by (simp add: build_statement_def Let_def)
      with g s Inr show ?thesis by simp
    qed
  qed
qed

lemma build_statement_built:
  assumes "group_loop e tbl (items (group_by req)) [] = Inr group_cols"
    and "metrics_loop e tbl (items (metrics req)) [] = Inr sel_cols0"
    and "filter_clauses e tbl (items (filters req)) = Inr clauses"
  shows "build_statement e tbl req =
     Inr \<lparr>columns = group_cols @ (if sel_cols0 = [] then [Label (FunctionElement ''count'' []) ''count''] else sel_cols0),
          select_from = tbl, whereclauses = clauses, group_by_clauses = group_cols,
          limit_clause = (if truthy_int (limit req) then limit req else None)\<rparr>"
  using assms by (simp add: build_statement_def Let_def)

lemma build_statement_plain:
  assumes "items (group_by req) = []" and "items (metrics req) = []" and "items (filters req) = []"
  shows "build_statement e tbl req =
     Inr \<lparr>columns = [Label (FunctionElement ''count'' []) ''count''],
          select_from = tbl, whereclauses = [], group_by_clauses = [],
          limit_clause = (if truthy_int (limit req) then limit req else None)\<rparr>"
  using assms by (simp add: build_statement_def)

lemma build_statement_limit:
  "build_statement e tbl req = Inr stmt \<Longrightarrow>
   limit_clause stmt = (if truthy_int (limit req) then limit req else None)"
  using build_statement_parts [of e tbl req stmt] by blast

lemma build_statement_group_failure:
  "group_loop e tbl (items (group_by req)) [] = Inl h \<Longrightarrow> build_statement e tbl req = Inl h"
  by (simp add: build_statement_def)

lemma build_statement_metric_failure:
  "group_loop e tbl (items (group_by req)) [] = Inr group_cols \<Longrightarrow>
   metrics_loop e tbl (items (metrics req)) [] = Inl h \<Longrightarrow> build_statement e tbl req = Inl h"
  by (simp add: build_statement_def)

lemma build_statement_filter_failure:
  assumes "group_loop e tbl (items (group_by req)) [] = Inr group_cols"
    and "metrics_loop e tbl (items (metrics req)) [] = Inr sel_cols"
    and "filter_clauses e tbl (items (filters req)) = Inl h"
  shows "build_statement e tbl req = Inl h"
  using assms by (simp add: build_statement_def Let_def)

text \<open>The facts to unfold when a concrete request is evaluated.\<close>

lemma demo_env_fields:
  "lower demo_env = demo_lower" "str demo_env = demo_str" "bind_names demo_env = demo_bind_names"
  "tables demo_env = [''sales'' \<mapsto> sales]" "connect demo_env = None" "leave demo_env = None"
  "execute demo_env = (\<lambda>stmt. Inr [])"
  "lower flaky_env = demo_lower" "str flaky_env = demo_str" "bind_names flaky_env = demo_bind_names"
  "connect flaky_env = None" "leave flaky_env = None"
  "execute flaky_env = (\<lambda>stmt. Inl ''connection lost'')"
  "lower down_env = demo_lower" "connect down_env = Some ''connection refused''"
  by (simp_all add: demo_env_def flaky_env_def down_env_def)

lemma sales_columns:
  "c_get sales ''region'' = Some \<lparr>col_name = ''region'', col_type = ''VARCHAR''\<rparr>"
  "c_get sales ''revenue'' = Some \<lparr>col_name = ''revenue'', col_type = ''NUMERIC''\<rparr>"
  "c_get sales ''status'' = Some \<lparr>col_name = ''status'', col_type = ''VARCHAR''\<rparr>"
  "c_get sales ''city'' = None" "c_get sales ''price'' = None" "c_get sales ''nope'' = None"
  by (simp_all add: c_get_def sales_def)

section \<open>The filter compiler\<close>

lemma column_eq_bound:
  "\<not> is_none_or_bool v \<Longrightarrow> column_eq col v = BinaryExpression (ColumnClause col) Op_eq (BindParameter v)"
  by (cases v) simp_all

lemma column_ne_bound:
  "\<not> is_none_or_bool v \<Longrightarrow> column_ne col v = BinaryExpression (ColumnClause col) Op_ne (BindParameter v)"
  by (cases v) simp_all

lemma column_eq_texts:
  "text_fragments (column_eq col v) = [] \<and> required_params (column_eq col v) = [] \<and>
   bound_values (column_eq col v) = (if is_none_or_bool v then [] else [v])"
  by (cases v) simp_all

lemma column_ne_texts:
  "text_fragments (column_ne col v) = [] \<and> required_params (column_ne col v) = [] \<and>
   bound_values (column_ne col v) = (if is_none_or_bool v then [] else [v])"
  by (cases v) simp_all

lemma column_cmp_texts:
  "column_cmp oper col v = Inr cl \<Longrightarrow>
   text_fragments cl = [] \<and> required_params cl = [] \<and> bound_values cl = [v] \<and> \<not> is_none_or_bool v"
  by (auto simp: column_cmp_def split: if_splits)

lemma in_list_texts:
  "concat (map text_fragments (map (\<lambda>x. if x = PNone then Null else BindParameter x) xs)) = [] \<and>
   concat (map required_params (map (\<lambda>x. if x = PNone then Null else BindParameter x) xs)) = [] \<and>
   concat (map bound_values (map (\<lambda>x. if x = PNone then Null else BindParameter x) xs)) =
     filter (\<lambda>x. x \<noteq> PNone) xs"
  by (induction xs) simp_all

lemma column_in_texts:
  "column_in col xs = Inr cl \<Longrightarrow>
   text_fragments cl = [] \<and> required_params cl = [] \<and>
   bound_values cl = (if PNone \<in> set xs then filter (\<lambda>x. x \<noteq> PNone) xs else [PList xs])"
  using in_list_texts [of xs] by (auto simp: column_in_def split: if_splits)

lemma column_like_texts:
  "text_fragments (column_like col s) = [] \<and> required_params (column_like col s) = [] \<and>
   bound_values (column_like col s) = [PStr s]"
  by (simp add: column_like_def)

text \<open>The branch that \<^verbatim>\<open>_apply_filter_clause\<close> takes, once the column is found.\<close>

lemma apply_filter_clause_found:
  assumes "c_get tbl (f_column f) = Some col"
  shows "apply_filter_clause e tbl f =
     (if lower e (f_op f) \<in> {''='', ''eq''} then Inr (column_eq col (f_value f))
      else if lower e (f_op f) \<in> {''!='', ''ne''} then Inr (column_ne col (f_value f))
      else if lower e (f_op f) = ''>'' then column_cmp Op_gt col (f_value f)
      else if lower e (f_op f) = ''<'' then column_cmp Op_lt col (f_value f)
      else if lower e (f_op f) = ''>='' then column_cmp Op_ge col (f_value f)
      else if lower e (f_op f) = ''<='' then column_cmp Op_le col (f_value f)
      else if lower e (f_op f) = ''in'' then
        (case f_value f of PList xs \<Rightarrow> column_in col xs
         | _ \<Rightarrow> Inl (HTTPException 400 ''Value for 'in' must be a list''))
      else if lower e (f_op f) = ''like'' then Inr (column_like col (str e (f_value f)))
      else Inl (HTTPException 400 (''Unsupported filter op: '' @ f_op f)))"
  using assms by (simp add: apply_filter_clause_def Let_def)

lemma apply_filter_clause_unknown:
  "c_get tbl (f_column f) = None \<Longrightarrow>
   apply_filter_clause e tbl f = Inl (HTTPException 400 (''Unknown column: '' @ f_column f))"
  by (simp add: apply_filter_clause_def)

lemma apply_filter_clause_Inr_found:
  "apply_filter_clause e tbl f = Inr cl \<Longrightarrow> \<exists>col. c_get tbl (f_column f) = Some col"
  by (cases "c_get tbl (f_column f)") (simp_all add: apply_filter_clause_unknown)

lemma apply_filter_clause_in_not_list:
  assumes "lower e (f_op f) = ''in''" and "\<not> isinstance_list (f_value f)"
  shows "apply_filter_clause e tbl f =
     (case c_get tbl (f_column f) of
        None \<Rightarrow> Inl (HTTPException 400 (''Unknown column: '' @ f_column f))
      | Some col \<Rightarrow> Inl (HTTPException 400 ''Value for 'in' must be a list''))"
proof (cases "c_get tbl (f_column f)")
  case None
  then show ?thesis by (simp add: apply_filter_clause_unknown)
next
  case (Some col)
  from assms apply_filter_clause_found [OF Some, of e] Some show ?thesis
    by (cases "f_value f") simp_all
qed

lemma filter_clauses_all_compile:
  "filter_clauses e tbl fs = Inr cls \<Longrightarrow> f \<in> set fs \<Longrightarrow> \<exists>cl. apply_filter_clause e tbl f = Inr cl"
  by (induction fs arbitrary: cls) (auto split: sum.splits)

lemma filter_clauses_first_failure:
  "filter_clauses e tbl fs = Inr cls \<Longrightarrow> apply_filter_clause e tbl f = Inl h \<Longrightarrow>
   filter_clauses e tbl (fs @ f # rest) = Inl h"
  by (induction fs arbitrary: cls) (auto split: sum.splits)

lemma apply_filter_clause_texts:
  assumes "apply_filter_clause e tbl f = Inr cl"
  shows "text_fragments cl = [] \<and> required_params cl = []"
proof -
  from apply_filter_clause_Inr_found [OF assms] obtain col where
    c: "c_get tbl (f_column f) = Some col" by blast
  from assms apply_filter_clause_found [OF c, of e] show ?thesis
    by (auto simp: column_eq_texts column_ne_texts column_like_texts
             split: if_splits pyval.splits dest: column_cmp_texts column_in_texts)
qed

lemma apply_filter_clause_bound:
  assumes "apply_filter_clause e tbl f = Inr cl" and "\<not> is_none_or_bool (f_value f)"
    and "lower e (f_op f) \<noteq> ''in''"
  shows "\<exists>col oper. cl = BinaryExpression (ColumnClause col) oper (BindParameter (operand e f)) \<and>
           c_get tbl (f_column f) = Some col \<and>
           oper = (if lower e (f_op f) \<in> {''='', ''eq''} then Op_eq
                   else if lower e (f_op f) \<in> {''!='', ''ne''} then Op_ne
                   else if lower e (f_op f) = ''>'' then Op_gt
                   else if lower e (f_op f) = ''<'' then Op_lt
                   else if lower e (f_op f) = ''>='' then Op_ge
                   else if lower e (f_op f) = ''<='' then Op_le
                   else Op_like)"
proof -
  from apply_filter_clause_Inr_found [OF assms(1)] obtain col where
    c: "c_get tbl (f_column f) = Some col" by blast
  from assms apply_filter_clause_found [OF c, of e] c show ?thesis
    by (auto simp: column_eq_bound column_ne_bound column_like_def column_cmp_def operand_def
             split: if_splits)
qed

lemma apply_filter_clause_like:
  assumes "apply_filter_clause e tbl f = Inr cl" and "lower e (f_op f) = ''like''"
  shows "bound_values cl = [PStr (str e (f_value f))]"
proof -
  from apply_filter_clause_Inr_found [OF assms(1)] obtain col where
    c: "c_get tbl (f_column f) = Some col" by blast
  from assms apply_filter_clause_found [OF c, of e] show ?thesis
    by (auto simp: column_like_def)
qed

lemma apply_filter_clause_in:
  assumes "apply_filter_clause e tbl f = Inr cl" and "lower e (f_op f) = ''in''"
    and "f_value f = PList xs"
  shows "bound_values cl = (if PNone \<in> set xs then filter (\<lambda>x. x \<noteq> PNone) xs else [PList xs])"
proof -
  from apply_filter_clause_Inr_found [OF assms(1)] obtain col where
    c: "c_get tbl (f_column f) = Some col" by blast
  from assms apply_filter_clause_found [OF c, of e] have "column_in col xs = Inr cl"
    by simp
  from column_in_texts [OF this] show ?thesis by simp
qed

lemma apply_filter_clause_const:
  assumes "apply_filter_clause e tbl f = Inr cl" and "is_none_or_bool (f_value f)"
    and "lower e (f_op f) \<noteq> ''like''"
  shows "bound_values cl = []"
proof -
  from apply_filter_clause_Inr_found [OF assms(1)] obtain col where
    c: "c_get tbl (f_column f) = Some col" by blast
  from assms apply_filter_clause_found [OF c, of e] show ?thesis
    by (auto simp: column_eq_texts column_ne_texts
             split: if_splits pyval.splits dest: column_cmp_texts)
qed

lemma filter_clauses_texts:
  "filter_clauses e tbl fs = Inr cls \<Longrightarrow>
   concat (map text_fragments cls) = [] \<and> concat (map required_params cls) = []"
proof (induction fs arbitrary: cls)
  case Nil
  then show ?case by simp
next
  case (Cons f fs)
  from Cons.prems obtain cl cls' where
    a: "apply_filter_clause e tbl f = Inr cl" and r: "filter_clauses e tbl fs = Inr cls'"
    and c: "cls = cl # cls'"
    by (auto split: sum.splits)
  from apply_filter_clause_texts [OF a] Cons.IH [OF r] c show ?case by simp
qed

section \<open>The grouping loop\<close>

lemma contains_char: "contains [ch] g \<longleftrightarrow> ch \<in> set g"
  by (induction g) auto

lemma count_spaces_pos: "count_spaces g > 0 \<longleftrightarrow> CHR '' '' \<in> set g"
  by (simp add: count_spaces_def count_list_0_iff zero_less_iff_neq_zero del: neq0_conv)

lemma is_raw_iff:
  "is_raw g \<longleftrightarrow> CHR ''('' \<in> set g \<or> contains ''::'' g \<or> CHR '' '' \<in> set g"
  by (simp add: is_raw_def contains_char count_spaces_pos)

lemma group_loop_Inr:
  "group_loop e tbl gs acc = Inr cols \<Longrightarrow>
   \<exists>new. cols = acc @ new \<and> list_all2 (resolves e tbl) gs new"
proof (induction e tbl gs acc arbitrary: cols rule: group_loop.induct)
  case (1 e tbl group_cols)
  then show ?case by simp
next
  case (2 e tbl g gs group_cols)
  show ?case
  proof (cases "is_raw g")
    case True
    with "2.prems" have "group_loop e tbl gs (group_cols @ [text_clause e g]) = Inr cols" by simp
    from "2.IH"(1) [OF True this] obtain new where
      "cols = (group_cols @ [text_clause e g]) @ new" and "list_all2 (resolves e tbl) gs new" by blast
    with True have "cols = group_cols @ (text_clause e g # new) \<and>
        list_all2 (resolves e tbl) (g # gs) (text_clause e g # new)"
      by (simp add: resolves_def)
    then show ?thesis by blast
  next
    case False
    with "2.prems" obtain col where c: "c_get tbl g = Some col"
      by (cases "c_get tbl g") auto
    with False "2.prems" have "group_loop e tbl gs (group_cols @ [ColumnClause col]) = Inr cols" by simp
    from "2.IH"(2) [OF False c this] obtain new where
      "cols = (group_cols @ [ColumnClause col]) @ new" and "list_all2 (resolves e tbl) gs new" by blast
    with False c have "cols = group_cols @ (ColumnClause col # new) \<and>
        list_all2 (resolves e tbl) (g # gs) (ColumnClause col # new)"
      by (simp add: resolves_def)
    then show ?thesis by blast
  qed
qed

lemma group_loop_Inl:
  "group_loop e tbl gs acc = Inl h \<Longrightarrow>
   \<exists>g \<in> set gs. \<not> is_raw g \<and> c_get tbl g = None \<and> h = HTTPException 400 (''Unknown group_by column: '' @ g)"
  by (induction e tbl gs acc rule: group_loop.induct) (auto split: if_splits option.splits)

lemma group_loop_fails:
  "g \<in> set gs \<Longrightarrow> \<not> is_raw g \<Longrightarrow> c_get tbl g = None \<Longrightarrow> \<exists>h. group_loop e tbl gs acc = Inl h"
  by (induction e tbl gs acc rule: group_loop.induct) (auto split: if_splits option.splits)

lemma group_loop_succeeds:
  "\<forall>g \<in> set gs. is_raw g \<or> c_get tbl g \<noteq> None \<Longrightarrow> \<exists>cols. group_loop e tbl gs acc = Inr cols"
  by (induction e tbl gs acc rule: group_loop.induct) (auto split: if_splits option.splits)

section \<open>The metrics loop\<close>

lemma metric_expr_count_unknown:
  assumes "lower e (m_op m) = ''count''" and "m_column m = Some cn" and "cn \<noteq> []"
    and "c_get tbl cn = None"
  shows "metric_expr e tbl m =
    Inr (Label (FunctionElement ''count'' [])
           (if truthy_str (m_alias m) then the (m_alias m) else ''count_'' @ cn))"
  using assms by (simp add: metric_expr_def)

lemma metric_expr_other_unknown:
  assumes "lower e (m_op m) \<noteq> ''count''" and "m_column m = Some cn" and "cn \<noteq> []"
    and "c_get tbl cn = None"
  shows "metric_expr e tbl m = Inl (HTTPException 400 (''Unknown metric column: '' @ cn))"
  using assms by (simp add: metric_expr_def)

lemma metric_expr_Inl:
  "metric_expr e tbl m = Inl h \<Longrightarrow> \<exists>d. h = HTTPException 400 d"
  by (auto simp: metric_expr_def Let_def split: option.splits if_splits)

lemma metrics_loop_Inl:
  "metrics_loop e tbl ms acc = Inl h \<Longrightarrow> \<exists>d. h = HTTPException 400 d"
  by (induction e tbl ms acc rule: metrics_loop.induct)
     (auto split: sum.splits dest: metric_expr_Inl)

lemma metrics_loop_Inr:
  "metrics_loop e tbl ms acc = Inr sel \<Longrightarrow>
   \<exists>new. sel = acc @ new \<and> list_all2 (\<lambda>m x. metric_expr e tbl m = Inr x) ms new"
proof (induction e tbl ms acc arbitrary: sel rule: metrics_loop.induct)
  case (1 e tbl sel_cols)
  then show ?case by simp
next
  case (2 e tbl m ms sel_cols)
  from "2.prems" obtain ex where x: "metric_expr e tbl m = Inr ex"
    and r: "metrics_loop e tbl ms (sel_cols @ [ex]) = Inr sel"
    by (auto split: sum.splits)
  from "2.IH" [OF x r] obtain new where
    "sel = (sel_cols @ [ex]) @ new" and "list_all2 (\<lambda>m x. metric_expr e tbl m = Inr x) ms new"
    by blast
  with x have "sel = sel_cols @ (ex # new) \<and>
      list_all2 (\<lambda>m x. metric_expr e tbl m = Inr x) (m # ms) (ex # new)"
    by simp
  then show ?case by blast
qed

lemma metrics_loop_all:
  "list_all2 (\<lambda>m x. metric_expr e tbl m = Inr x) ms xs \<Longrightarrow>
   metrics_loop e tbl ms acc = Inr (acc @ xs)"
  by (induction ms xs arbitrary: acc rule: list_all2_induct) simp_all

lemma group_loop_Inl_status:
  "group_loop e tbl gs acc = Inl h \<Longrightarrow> \<exists>d. h = HTTPException 400 d"
  by (induction e tbl gs acc rule: group_loop.induct) (auto split: if_splits option.splits)

lemma failing_metric_fails_build:
  assumes "m \<in> set (items (metrics req))" and "metric_expr e tbl m = Inl h"
  shows "\<exists>d. build_statement e tbl req = Inl (HTTPException 400 d)"
proof (cases "group_loop e tbl (items (group_by req)) []")
  case (Inl h')
  from group_loop_Inl_status [OF this] build_statement_group_failure [OF Inl] show ?thesis
    by auto
next
  case g: (Inr group_cols)
  show ?thesis
  proof (cases "metrics_loop e tbl (items (metrics req)) []")
    case (Inl h')
    from metrics_loop_Inl [OF this] build_statement_metric_failure [OF g Inl] show ?thesis
      by auto
  next
    case (Inr sel)
    from metrics_loop_Inr [OF this]
    have "list_all2 (\<lambda>m x. metric_expr e tbl m = Inr x) (items (metrics req)) sel" by simp
    with assms(1) obtain x where "metric_expr e tbl m = Inr x"
      by (auto simp: list_all2_conv_all_nth in_set_conv_nth)
    with assms(2) show ?thesis by simp
  qed
qed

section \<open>Properties\<close>




text \<open>
  C2. As stated, the property fails: under \<^verbatim>\<open>=\<close> and \<^verbatim>\<open>!=\<close> a value \<^verbatim>\<open>None\<close>,
  \<^verbatim>\<open>True\<close> or \<^verbatim>\<open>False\<close> is not carried as a bound parameter; the clause compares the
  column with a constant of SQL and binds nothing.
\<close>

theorem null_equality_binds_nothing_counterexample:
  "apply_filter_clause demo_env sales \<lparr>f_column = ''status'', f_op = ''='', f_value = PNone\<rparr> =
     Inr (BinaryExpression (ColumnClause \<lparr>col_name = ''status'', col_type = ''VARCHAR''\<rparr>) Op_is Null)
   \<and> bound_values (BinaryExpression (ColumnClause \<lparr>col_name = ''status'', col_type = ''VARCHAR''\<rparr>) Op_is Null) = []
   \<and> apply_filter_clause demo_env sales \<lparr>f_column = ''status'', f_op = ''!='', f_value = PBool True\<rparr> =
     Inr (BinaryExpression (ColumnClause \<lparr>col_name = ''status'', col_type = ''VARCHAR''\<rparr>) Op_ne SqlTrue)
   \<and> bound_values (BinaryExpression (ColumnClause \<lparr>col_name = ''status'', col_type = ''VARCHAR''\<rparr>) Op_ne SqlTrue) = []"
  by (simp add: apply_filter_clause_def sales_columns demo_env_fields lower_char_def)

text \<open>
  C2, amended. A filter term that compiles yields a clause without any fragment of
  literal SQL text and without a parameter that lacks a value. A value that is
  neither \<^verbatim>\<open>None\<close> nor a Boolean is the one bound value of the clause, as
  \<^verbatim>\<open>str\<close> of it under \<^verbatim>\<open>like\<close>; under \<^verbatim>\<open>like\<close> this holds for every value. A list
  under \<^verbatim>\<open>in\<close> is bound whole, or element by element without its \<^verbatim>\<open>None\<close> elements.
  \<^verbatim>\<open>None\<close> and the Booleans under \<^verbatim>\<open>=\<close> and \<^verbatim>\<open>!=\<close> bind nothing. Two terms on the same
  column with the same operator, other than \<^verbatim>\<open>in\<close>, and with values that are neither
  \<^verbatim>\<open>None\<close> nor Booleans compile to clauses that differ in nothing but the bound
  value. The conditions of a built statement hold no text fragment.
\<close>

theorem filter_value_never_in_text:
  "(apply_filter_clause e tbl f = Inr cl \<longrightarrow> text_fragments cl = [] \<and> required_params cl = [])
   \<and> (apply_filter_clause e tbl f = Inr cl \<longrightarrow> \<not> is_none_or_bool (f_value f) \<longrightarrow>
        lower e (f_op f) \<noteq> ''in'' \<longrightarrow> bound_values cl = [operand e f])
   \<and> (apply_filter_clause e tbl f = Inr cl \<longrightarrow> lower e (f_op f) = ''like'' \<longrightarrow>
        bound_values cl = [PStr (str e (f_value f))])
   \<and> (apply_filter_clause e tbl f = Inr cl \<longrightarrow> lower e (f_op f) = ''in'' \<longrightarrow> f_value f = PList xs \<longrightarrow>
        bound_values cl = (if PNone \<in> set xs then filter (\<lambda>x. x \<noteq> PNone) xs else [PList xs]))
   \<and> (apply_filter_clause e tbl f = Inr cl \<longrightarrow> is_none_or_bool (f_value f) \<longrightarrow>
        lower e (f_op f) \<noteq> ''like'' \<longrightarrow> bound_values cl = [])
   \<and> (apply_filter_clause e tbl f = Inr cl \<longrightarrow> apply_filter_clause e tbl f' = Inr cl' \<longrightarrow>
        f_column f' = f_column f \<longrightarrow> f_op f' = f_op f \<longrightarrow> lower e (f_op f) \<noteq> ''in'' \<longrightarrow>
        \<not> is_none_or_bool (f_value f) \<longrightarrow> \<not> is_none_or_bool (f_value f') \<longrightarrow>
        skeleton cl' = skeleton cl)
   \<and> (build_statement e tbl req = Inr stmt \<longrightarrow>
        concat (map text_fragments (whereclauses stmt)) = [] \<and>
        concat (map required_params (whereclauses stmt)) = [])"
proof (intro conjI impI)
  assume a: "apply_filter_clause e tbl f = Inr cl"
  from apply_filter_clause_texts [OF a]
  show "text_fragments cl = []" and "required_params cl = []" by simp_all
next
  assume a: "apply_filter_clause e tbl f = Inr cl" and v: "\<not> is_none_or_bool (f_value f)"
    and o: "lower e (f_op f) \<noteq> ''in''"
  from apply_filter_clause_bound [OF a v o] show "bound_values cl = [operand e f]" by auto
next
  assume "apply_filter_clause e tbl f = Inr cl" and "lower e (f_op f) = ''like''"
  then show "bound_values cl = [PStr (str e (f_value f))]" by (rule apply_filter_clause_like)
next
  assume "apply_filter_clause e tbl f = Inr cl" and "lower e (f_op f) = ''in''"
    and "f_value f = PList xs"
  then show "bound_values cl = (if PNone \<in> set xs then filter (\<lambda>x. x \<noteq> PNone) xs else [PList xs])"
    by (rule apply_filter_clause_in)
next
  assume "apply_filter_clause e tbl f = Inr cl" and "is_none_or_bool (f_value f)"
    and "lower e (f_op f) \<noteq> ''like''"
  then show "bound_values cl = []" by (rule apply_filter_clause_const)
next
  assume a: "apply_filter_clause e tbl f = Inr cl" and b: "apply_filter_clause e tbl f' = Inr cl'"
    and same: "f_column f' = f_column f" "f_op f' = f_op f"
    and o: "lower e (f_op f) \<noteq> ''in''"
    and v: "\<not> is_none_or_bool (f_value f)" and v': "\<not> is_none_or_bool (f_value f')"
  from o same have o': "lower e (f_op f') \<noteq> ''in''" by simp
  from apply_filter_clause_bound [OF a v o] apply_filter_clause_bound [OF b v' o'] same
  show "skeleton cl' = skeleton cl" by auto
next
  assume "build_statement e tbl req = Inr stmt"
  from build_statement_parts [OF this]
  have "filter_clauses e tbl (items (filters req)) = Inr (whereclauses stmt)" by blast
  from filter_clauses_texts [OF this]
  show "concat (map text_fragments (whereclauses stmt)) = []"
    and "concat (map required_params (whereclauses stmt)) = []"
    by simp_all
qed

theorem filter_value_never_in_text_witness:
  "apply_filter_clause demo_env sales
      \<lparr>f_column = ''status'', f_op = ''like'', f_value = PStr ''%; DROP TABLE sales; --''\<rparr> =
     Inr (BinaryExpression (ColumnClause \<lparr>col_name = ''status'', col_type = ''VARCHAR''\<rparr>) Op_like
            (BindParameter (PStr ''%; DROP TABLE sales; --'')))
   \<and> text_fragments (BinaryExpression (ColumnClause \<lparr>col_name = ''status'', col_type = ''VARCHAR''\<rparr>) Op_like
            (BindParameter (PStr ''%; DROP TABLE sales; --''))) = []
   \<and> bound_values (BinaryExpression (ColumnClause \<lparr>col_name = ''status'', col_type = ''VARCHAR''\<rparr>) Op_like
            (BindParameter (PStr ''%; DROP TABLE sales; --''))) = [PStr ''%; DROP TABLE sales; --'']
   \<and> skeleton (BinaryExpression (ColumnClause \<lparr>col_name = ''status'', col_type = ''VARCHAR''\<rparr>) Op_like
            (BindParameter (PStr ''%; DROP TABLE sales; --''))) =
       skeleton (BinaryExpression (ColumnClause \<lparr>col_name = ''status'', col_type = ''VARCHAR''\<rparr>) Op_like
            (BindParameter (PStr ''paid'')))
   \<and> apply_filter_clause demo_env sales
        \<lparr>f_column = ''status'', f_op = ''in'', f_value = PList [PStr ''a'', PNone]\<rparr> =
       Inr (BinaryExpression (ColumnClause \<lparr>col_name = ''status'', col_type = ''VARCHAR''\<rparr>) Op_in
              (ClauseList [BindParameter (PStr ''a''), Null]))
   \<and> bound_values (BinaryExpression (ColumnClause \<lparr>col_name = ''status'', col_type = ''VARCHAR''\<rparr>) Op_in
              (ClauseList [BindParameter (PStr ''a''), Null])) = [PStr ''a'']
   \<and> apply_filter_clause demo_env sales \<lparr>f_column = ''status'', f_op = ''='', f_value = PNone\<rparr> =
       Inr (BinaryExpression (ColumnClause \<lparr>col_name = ''status'', col_type = ''VARCHAR''\<rparr>) Op_is Null)
   \<and> bound_values (BinaryExpression (ColumnClause \<lparr>col_name = ''status'', col_type = ''VARCHAR''\<rparr>) Op_is Null) = []
   \<and> (\<exists>stmt. build_statement demo_env sales
          \<lparr>table = ''sales'', group_by = None, metrics = None,
           filters = Some [\<lparr>f_column = ''status'', f_op = ''like'', f_value = PStr ''%; DROP TABLE sales; --''\<rparr>,
                           \<lparr>f_column = ''status'', f_op = ''='', f_value = PNone\<rparr>],
           limit = None\<rparr> = Inr stmt
        \<and> concat (map text_fragments (whereclauses stmt)) = []
        \<and> concat (map required_params (whereclauses stmt)) = [])"
proof -
  let ?column = "\<lparr>col_name = ''status'', col_type = ''VARCHAR''\<rparr>"
  let ?a = "\<lparr>f_column = ''status'', f_op = ''like'', f_value = PStr ''%; DROP TABLE sales; --''\<rparr>"
  let ?b = "\<lparr>f_column = ''status'', f_op = ''like'', f_value = PStr ''paid''\<rparr>"
  let ?c = "\<lparr>f_column = ''status'', f_op = ''in'', f_value = PList [PStr ''a'', PNone]\<rparr>"
  let ?d = "\<lparr>f_column = ''status'', f_op = ''='', f_value = PNone\<rparr>"
  let ?ca = "BinaryExpression (ColumnClause ?column) Op_like (BindParameter (PStr ''%; DROP TABLE sales; --''))"
  let ?cb = "BinaryExpression (ColumnClause ?column) Op_like (BindParameter (PStr ''paid''))"
  let ?cc = "BinaryExpression (ColumnClause ?column) Op_in (ClauseList [BindParameter (PStr ''a''), Null])"
  let ?cd = "BinaryExpression (ColumnClause ?column) Op_is Null"
  let ?rq = "\<lparr>table = ''sales'', group_by = None, metrics = None, filters = Some [?a, ?d], limit = None\<rparr>"
  let ?st = "\<lparr>columns = [Label (FunctionElement ''count'' []) ''count''], select_from = sales,
              whereclauses = [?ca, ?cd], group_by_clauses = [], limit_clause = None\<rparr>"
  have low: "lower demo_env ''like'' = ''like''" "lower demo_env ''in'' = ''in''"
    "lower demo_env ''='' = ''=''"
    by (simp_all add: demo_env_fields lower_char_def)
  have A: "apply_filter_clause demo_env sales ?a = Inr ?ca"
    by (simp add: apply_filter_clause_def sales_columns column_like_def demo_env_fields lower_char_def)
  have B: "apply_filter_clause demo_env sales ?b = Inr ?cb"
    by (simp add: apply_filter_clause_def sales_columns column_like_def demo_env_fields lower_char_def)
  have C: "apply_filter_clause demo_env sales ?c = Inr ?cc"
    by (simp add: apply_filter_clause_def sales_columns column_in_def demo_env_fields lower_char_def)
  have D: "apply_filter_clause demo_env sales ?d = Inr ?cd"
    by (simp add: apply_filter_clause_def sales_columns demo_env_fields lower_char_def)
  have S: "build_statement demo_env sales ?rq = Inr ?st"
    by (simp add: build_statement_def A D)
  have oa: "lower demo_env (f_op ?a) = ''like''" and va: "\<not> is_none_or_bool (f_value ?a)"
    and vb: "\<not> is_none_or_bool (f_value ?b)" and na: "lower demo_env (f_op ?a) \<noteq> ''in''"
    by (simp_all add: low)
  have oc: "lower demo_env (f_op ?c) = ''in''" and vc: "f_value ?c = PList [PStr ''a'', PNone]"
    by (simp_all add: low)
  have od: "lower demo_env (f_op ?d) \<noteq> ''like''" and vd: "is_none_or_bool (f_value ?d)"
    by (simp_all add: low)
  from filter_value_never_in_text [of demo_env sales ?a ?ca] A
  have 1: "text_fragments ?ca = []" by blast
  from filter_value_never_in_text [of demo_env sales ?a ?ca] A oa
  have 2: "bound_values ?ca = [PStr (str demo_env (f_value ?a))]" by blast
  from filter_value_never_in_text [of demo_env sales ?a ?ca] A va na
  have 8: "bound_values ?ca = [operand demo_env ?a]" by blast
  have "f_column ?b = f_column ?a" and "f_op ?b = f_op ?a" by simp_all
  with filter_value_never_in_text [of demo_env sales ?a ?ca _ ?b ?cb] A B va vb na
  have 3: "skeleton ?cb = skeleton ?ca" by blast
  from filter_value_never_in_text [of demo_env sales ?c ?cc "[PStr ''a'', PNone]"] C oc vc
  have 4: "bound_values ?cc =
     (if PNone \<in> set [PStr ''a'', PNone] then filter (\<lambda>x. x \<noteq> PNone) [PStr ''a'', PNone]
      else [PList [PStr ''a'', PNone]])" by blast
  from filter_value_never_in_text [of demo_env sales ?d ?cd] D od vd
  have 5: "bound_values ?cd = []" by blast
  from filter_value_never_in_text [of demo_env sales _ _ _ _ _ ?rq ?st] S
  have 6: "concat (map text_fragments (whereclauses ?st)) = [] \<and>
        concat (map required_params (whereclauses ?st)) = []" by blast
  with S have 7: "\<exists>stmt. build_statement demo_env sales ?rq = Inr stmt
        \<and> concat (map text_fragments (whereclauses stmt)) = []
        \<and> concat (map required_params (whereclauses stmt)) = []"
    by blast
  from A 1 2 3 C 4 D 5 7 show ?thesis by (simp add: demo_env_fields)
qed

text \<open>
  C3. As stated, the property fails: a specifier with a closing parenthesis only, or
  with a tab as its only whitespace, is raw in the words of the specification and a
  column reference for the program, which rejects it as an unknown column.
\<close>

theorem raw_classification_counterexample:
  "spec_is_raw ''total)'' \<and> \<not> is_raw ''total)''
   \<and> group_loop demo_env sales [''total)''] [] = Inl (HTTPException 400 ''Unknown group_by column: total)'')
   \<and> spec_is_raw [CHR ''a'', CHR 0x09, CHR ''b''] \<and> \<not> is_raw [CHR ''a'', CHR 0x09, CHR ''b'']
   \<and> group_loop demo_env sales [[CHR ''a'', CHR 0x09, CHR ''b'']] [] =
       Inl (HTTPException 400 (''Unknown group_by column: '' @ [CHR ''a'', CHR 0x09, CHR ''b'']))"
  by (simp add: spec_is_raw_def whitespace_def is_raw_def count_spaces_def c_get_def sales_def)

text \<open>
  C3, amended. A grouping specifier is raw exactly when it contains an opening
  parenthesis, the marker \<^verbatim>\<open>::\<close> or a space character. A raw specifier is handed
  unchanged to \<^verbatim>\<open>text\<close>: it becomes a fragment of literal SQL text that binds no
  value of the request, and the parameters of the fragment are the names that
  \<^verbatim>\<open>text\<close> reads in it. Every other specifier becomes the column of that name. The
  grouping keys of a built statement are the specifiers of the request resolved
  this way, in order, and they open its select list. A specifier that is not raw
  and names no column of the table makes the loop, and the building of the
  statement, fail with status 400 and the detail \<^verbatim>\<open>Unknown group_by column\<close> for
  such a specifier.
\<close>

theorem grouping_resolution:
  "(is_raw g \<longleftrightarrow> CHR ''('' \<in> set g \<or> contains ''::'' g \<or> CHR '' '' \<in> set g)
   \<and> (is_raw g \<longrightarrow> resolves e tbl g x \<longrightarrow>
        x = TextClause g (bind_names e g) \<and> text_fragments x = [g] \<and> bound_values x = [] \<and>
        required_params x = bind_names e g)
   \<and> (\<not> is_raw g \<longrightarrow> resolves e tbl g x \<longrightarrow>
        (\<exists>col. c_get tbl g = Some col \<and> x = ColumnClause col))
   \<and> (group_loop e tbl gs [] = Inr cols \<longrightarrow> list_all2 (resolves e tbl) gs cols)
   \<and> (build_statement e tbl req = Inr stmt \<longrightarrow>
        list_all2 (resolves e tbl) (items (group_by req)) (group_by_clauses stmt) \<and>
        take (length (group_by_clauses stmt)) (columns stmt) = group_by_clauses stmt)
   \<and> (g \<in> set gs \<longrightarrow> \<not> is_raw g \<longrightarrow> c_get tbl g = None \<longrightarrow>
        (\<exists>g' \<in> set gs. \<not> is_raw g' \<and> c_get tbl g' = None \<and>
           group_loop e tbl gs [] = Inl (HTTPException 400 (''Unknown group_by column: '' @ g'))))
   \<and> (g \<in> set (items (group_by req)) \<longrightarrow> \<not> is_raw g \<longrightarrow> c_get tbl g = None \<longrightarrow>
        (\<exists>g' \<in> set (items (group_by req)). \<not> is_raw g' \<and> c_get tbl g' = None \<and>
           build_statement e tbl req = Inl (HTTPException 400 (''Unknown group_by column: '' @ g'))))"
proof (intro conjI impI)
  show "is_raw g \<longleftrightarrow> CHR ''('' \<in> set g \<or> contains ''::'' g \<or> CHR '' '' \<in> set g"
    by (rule is_raw_iff)
next
  assume "is_raw g" and "resolves e tbl g x"
  then show "x = TextClause g (bind_names e g)" and "text_fragments x = [g]"
    and "bound_values x = []" and "required_params x = bind_names e g"
    by (simp_all add: resolves_def text_clause_def)
next
  assume "\<not> is_raw g" and "resolves e tbl g x"
  then show "\<exists>col. c_get tbl g = Some col \<and> x = ColumnClause col"
    by (cases "c_get tbl g") (simp_all add: resolves_def)
next
  assume "group_loop e tbl gs [] = Inr cols"
  from group_loop_Inr [OF this] show "list_all2 (resolves e tbl) gs cols" by simp
next
  assume "build_statement e tbl req = Inr stmt"
  from build_statement_parts [OF this] obtain group_cols sel_cols0 where
    g: "group_loop e tbl (items (group_by req)) [] = Inr group_cols" and
    c: "columns stmt = group_cols @ (if sel_cols0 = [] then [Label (FunctionElement ''count'' []) ''count''] else sel_cols0)" and
    gb: "group_by_clauses stmt = group_cols"
    by blast
  from group_loop_Inr [OF g] gb
  show "list_all2 (resolves e tbl) (items (group_by req)) (group_by_clauses stmt)" by simp
  from c gb show "take (length (group_by_clauses stmt)) (columns stmt) = group_by_clauses stmt"
    by simp
next
  assume a: "g \<in> set gs" "\<not> is_raw g" "c_get tbl g = None"
  from group_loop_fails [OF a] obtain h where h: "group_loop e tbl gs [] = Inl h" by blast
  from group_loop_Inl [OF h] h
  show "\<exists>g' \<in> set gs. \<not> is_raw g' \<and> c_get tbl g' = None \<and>
           group_loop e tbl gs [] = Inl (HTTPException 400 (''Unknown group_by column: '' @ g'))"
    by auto
next
  assume a: "g \<in> set (items (group_by req))" "\<not> is_raw g" "c_get tbl g = None"
  from group_loop_fails [OF a] obtain h where h: "group_loop e tbl (items (group_by req)) [] = Inl h" by blast
  then have "build_statement e tbl req = Inl h" by (simp add: build_statement_def)
  with group_loop_Inl [OF h]
  show "\<exists>g' \<in> set (items (group_by req)). \<not> is_raw g' \<and> c_get tbl g' = None \<and>
           build_statement e tbl req = Inl (HTTPException 400 (''Unknown group_by column: '' @ g'))"
    by auto
qed

theorem grouping_resolution_witness:
  "is_raw ''created_at::date''
   \<and> text_clause demo_env ''created_at::date'' = TextClause ''created_at::date'' []
   \<and> required_params (text_clause demo_env ''created_at::date'') = []
   \<and> bound_values (text_clause demo_env ''created_at::date'') = []
   \<and> is_raw ''lower(:x)''
   \<and> text_clause demo_env ''lower(:x)'' = TextClause ''lower(:x)'' [''x'']
   \<and> required_params (text_clause demo_env ''lower(:x)'') = [''x'']
   \<and> group_loop demo_env sales [''date_trunc('month', created_at)'', ''region''] [] =
       Inr [TextClause ''date_trunc('month', created_at)'' [],
            ColumnClause \<lparr>col_name = ''region'', col_type = ''VARCHAR''\<rparr>]
   \<and> list_all2 (resolves demo_env sales) [''date_trunc('month', created_at)'', ''region'']
       [TextClause ''date_trunc('month', created_at)'' [],
        ColumnClause \<lparr>col_name = ''region'', col_type = ''VARCHAR''\<rparr>]
   \<and> group_loop demo_env sales [''region'', ''city''] [] = Inl (HTTPException 400 ''Unknown group_by column: city'')
   \<and> build_statement demo_env sales
        \<lparr>table = ''sales'', group_by = Some [''region'', ''city''], metrics = None, filters = None, limit = None\<rparr>
       = Inl (HTTPException 400 ''Unknown group_by column: city'')
   \<and> build_statement demo_env sales
        \<lparr>table = ''sales'', group_by = Some [''date_trunc('month', created_at)'', ''region''],
         metrics = None, filters = None, limit = None\<rparr>
       = Inr \<lparr>columns = [TextClause ''date_trunc('month', created_at)'' [],
                           ColumnClause \<lparr>col_name = ''region'', col_type = ''VARCHAR''\<rparr>,
                           Label (FunctionElement ''count'' []) ''count''],
               select_from = sales, whereclauses = [],
               group_by_clauses = [TextClause ''date_trunc('month', created_at)'' [],
                                   ColumnClause \<lparr>col_name = ''region'', col_type = ''VARCHAR''\<rparr>],
               limit_clause = None\<rparr>"
proof -
  let ?raw = "''date_trunc('month', created_at)''"
  let ?gs = "[?raw, ''region'']"
  let ?region = "ColumnClause \<lparr>col_name = ''region'', col_type = ''VARCHAR''\<rparr>"
  let ?cols = "[TextClause ?raw [], ?region]"
  let ?bad = "[''region'', ''city'']"
  let ?rq = "\<lparr>table = ''sales'', group_by = Some ?gs, metrics = None, filters = None, limit = None\<rparr>"
  let ?rb = "\<lparr>table = ''sales'', group_by = Some ?bad, metrics = None, filters = None, limit = None\<rparr>"
  let ?st = "\<lparr>columns = ?cols @ [Label (FunctionElement ''count'' []) ''count''],
              select_from = sales, whereclauses = [], group_by_clauses = ?cols, limit_clause = None\<rparr>"
  have r: "is_raw ?raw" "\<not> is_raw ''city''" "\<not> is_raw ''region''"
    by (simp_all add: is_raw_def count_spaces_def)
  have n: "bind_names demo_env ?raw = []" "bind_names demo_env ''created_at::date'' = []"
    "bind_names demo_env ''lower(:x)'' = [''x'']"
    by (simp_all add: demo_env_fields demo_bind_names_def may_precede_def word_char_def)
  have t: "text_clause demo_env ?raw = TextClause ?raw []"
    by (simp add: text_clause_def n)
  have ev: "group_loop demo_env sales ?gs [] = Inr ?cols"
    by (simp add: r sales_columns t)
  have bd: "build_statement demo_env sales ?rq = Inr ?st"
    by (simp add: build_statement_def r sales_columns t)
  from grouping_resolution [where g = "''created_at::date''"]
  have 1: "is_raw ''created_at::date''" by simp
  from grouping_resolution [where g = "''lower(:x)''"]
  have 7: "is_raw ''lower(:x)''" by simp
  have "resolves demo_env sales ''created_at::date'' (text_clause demo_env ''created_at::date'')"
    by (simp add: resolves_def 1)
  with grouping_resolution [where g = "''created_at::date''" and tbl = sales and e = demo_env
      and x = "text_clause demo_env ''created_at::date''"] 1
  have 2: "text_clause demo_env ''created_at::date'' = TextClause ''created_at::date'' (bind_names demo_env ''created_at::date'')
     \<and> bound_values (text_clause demo_env ''created_at::date'') = []
     \<and> required_params (text_clause demo_env ''created_at::date'') = bind_names demo_env ''created_at::date''"
    by blast
  have "resolves demo_env sales ''lower(:x)'' (text_clause demo_env ''lower(:x)'')"
    by (simp add: resolves_def 7)
  with grouping_resolution [where g = "''lower(:x)''" and tbl = sales and e = demo_env
      and x = "text_clause demo_env ''lower(:x)''"] 7
  have 3: "text_clause demo_env ''lower(:x)'' = TextClause ''lower(:x)'' (bind_names demo_env ''lower(:x)'')
     \<and> required_params (text_clause demo_env ''lower(:x)'') = bind_names demo_env ''lower(:x)''"
    by blast
  from grouping_resolution [where tbl = sales and e = demo_env and gs = ?gs and cols = ?cols] ev
  have 4: "list_all2 (resolves demo_env sales) ?gs ?cols" by blast
  have m: "''city'' \<in> set ?bad" "''city'' \<in> set (items (group_by ?rb))" by simp_all
  from grouping_resolution [where g = "''city''" and tbl = sales and e = demo_env and gs = ?bad] m r sales_columns
  have "\<exists>g' \<in> set ?bad. \<not> is_raw g' \<and> c_get sales g' = None \<and>
           group_loop demo_env sales ?bad [] = Inl (HTTPException 400 (''Unknown group_by column: '' @ g'))"
    by blast
  then have 5: "group_loop demo_env sales ?bad [] = Inl (HTTPException 400 ''Unknown group_by column: city'')"
    by (auto simp: sales_columns)
  from grouping_resolution [where g = "''city''" and tbl = sales and e = demo_env and req = ?rb] m r sales_columns
  have "\<exists>g' \<in> set (items (group_by ?rb)). \<not> is_raw g' \<and> c_get sales g' = None \<and>
           build_statement demo_env sales ?rb = Inl (HTTPException 400 (''Unknown group_by column: '' @ g'))"
    by blast
  then have 6: "build_statement demo_env sales ?rb = Inl (HTTPException 400 ''Unknown group_by column: city'')"
    by (auto simp: sales_columns)
  from 1 7 2 3 n ev 4 5 6 bd show ?thesis by simp
qed

text \<open>
  C4. The table \<^verbatim>\<open>sales\<close> is in the catalog, and yet its resolution fails in a fresh
  process: \<^verbatim>\<open>get_table\<close> hands the asynchronous connection to
  \<^verbatim>\<open>Table(..., autoload_with=conn)\<close>, which the toolkit refuses to inspect. The
  request is answered with status 400, the cache stays without the name, and the
  next resolution opens a connection again.
\<close>

theorem present_table_is_not_resolved:
  "tables demo_env ''sales'' = Some sales
   \<and> fst (get_table demo_env ''sales'' init_state) = Inl (no_inspection demo_env)
   \<and> TABLE_CACHE (snd (get_table demo_env ''sales'' init_state)) ''sales'' = None
   \<and> fst (query demo_env
        \<lparr>table = ''sales'', group_by = None, metrics = None, filters = None, limit = Some 1000\<rparr>
        init_state) =
       Inl (HTTPException 400 (''Table not found or reflection error: '' @ no_inspection demo_env))
   \<and> io (resolutions [(demo_env, ''sales''), (demo_env, ''sales'')] init_state) =
       [Reflect ''sales'', Reflect ''sales'']
   \<and> TABLE_CACHE (resolutions [(demo_env, ''sales''), (demo_env, ''sales'')] init_state) ''sales'' = None"
proof -
  have m: "TABLE_CACHE init_state ''sales'' = None" by (simp add: init_state_def)
  have g: "get_table demo_env ''sales'' init_state =
      (Inl (no_inspection demo_env), init_state\<lparr>io := io init_state @ [Reflect ''sales'']\<rparr>)"
    using get_table_miss [OF m, of demo_env] by (simp add: demo_env_fields)
  have m2: "TABLE_CACHE (init_state\<lparr>io := io init_state @ [Reflect ''sales'']\<rparr>) ''sales'' = None"
    by (simp add: init_state_def)
  have g2: "get_table demo_env ''sales'' (init_state\<lparr>io := io init_state @ [Reflect ''sales'']\<rparr>) =
      (Inl (no_inspection demo_env),
       init_state\<lparr>io := io init_state @ [Reflect ''sales'']\<rparr>
         \<lparr>io := io (init_state\<lparr>io := io init_state @ [Reflect ''sales'']\<rparr>) @ [Reflect ''sales'']\<rparr>)"
    using get_table_miss [OF m2, of demo_env] by (simp add: demo_env_fields)
  have q: "fst (query demo_env
        \<lparr>table = ''sales'', group_by = None, metrics = None, filters = None, limit = Some 1000\<rparr>
        init_state) =
       Inl (HTTPException 400 (''Table not found or reflection error: '' @ no_inspection demo_env))"
    by (simp add: query_def g)
  from g g2 q show ?thesis
    by (simp add: demo_env_fields init_state_def)
qed

text \<open>
  C5. As stated, for every term with operator \<^verbatim>\<open>in\<close> and a value that is not a list,
  the property fails: when the column of the term does not exist the failure is
  \<^verbatim>\<open>Unknown column\<close>, since the column is looked up first.
\<close>

theorem in_unknown_column_counterexample:
  "lower demo_env ''in'' = ''in'' \<and> \<not> isinstance_list (PInt 5)
   \<and> apply_filter_clause demo_env sales \<lparr>f_column = ''nope'', f_op = ''in'', f_value = PInt 5\<rparr>
       = Inl (HTTPException 400 ''Unknown column: nope'')
   \<and> apply_filter_clause demo_env sales \<lparr>f_column = ''nope'', f_op = ''in'', f_value = PInt 5\<rparr>
       \<noteq> Inl (HTTPException 400 ''Value for 'in' must be a list'')"
  by (simp add: apply_filter_clause_def sales_columns demo_env_fields lower_char_def)

text \<open>
  C5, amended. A term with operator \<^verbatim>\<open>in\<close> (after \<^verbatim>\<open>str.lower()\<close>) on a column that
  exists and with a value that is not a list fails with status 400 and the detail
  \<^verbatim>\<open>Value for 'in' must be a list\<close>, and so does the body of \<^verbatim>\<open>query\<close> when grouping
  and metrics compile and the filters before the term compile. Every request that
  holds such a term, wherever and on whatever column, ends in a failure, and no
  statement is sent to the database.
\<close>

theorem in_requires_list:
  "(c_get tbl (f_column f) = Some col \<longrightarrow> lower e (f_op f) = ''in'' \<longrightarrow> \<not> isinstance_list (f_value f) \<longrightarrow>
      apply_filter_clause e tbl f = Inl (HTTPException 400 ''Value for 'in' must be a list'')
      \<and> (group_loop e tbl (items (group_by req)) [] = Inr group_cols \<longrightarrow>
           metrics_loop e tbl (items (metrics req)) [] = Inr sel_cols \<longrightarrow>
           filters req = Some (fs @ f # rest) \<longrightarrow> filter_clauses e tbl fs = Inr cls \<longrightarrow>
           query_body e tbl req st = (Inl (HTTPException 400 ''Value for 'in' must be a list''), st)))
   \<and> (f \<in> set (items (filters req)) \<longrightarrow> lower e (f_op f) = ''in'' \<longrightarrow> \<not> isinstance_list (f_value f) \<longrightarrow>
        (\<exists>x. fst (query_body e tbl req st) = Inl x) \<and> snd (query_body e tbl req st) = st
        \<and> (\<exists>x. fst (query e req st) = Inl x) \<and> executed (snd (query e req st)) = executed st)"
proof (intro conjI impI)
  assume a: "c_get tbl (f_column f) = Some col" "lower e (f_op f) = ''in''" "\<not> isinstance_list (f_value f)"
  from apply_filter_clause_in_not_list [OF a(2,3)] a(1)
  show v: "apply_filter_clause e tbl f = Inl (HTTPException 400 ''Value for 'in' must be a list'')"
    by simp
  assume g: "group_loop e tbl (items (group_by req)) [] = Inr group_cols"
    and m: "metrics_loop e tbl (items (metrics req)) [] = Inr sel_cols"
    and fl: "filters req = Some (fs @ f # rest)" and p: "filter_clauses e tbl fs = Inr cls"
  from filter_clauses_first_failure [OF p v] fl
  have "filter_clauses e tbl (items (filters req)) = Inl (HTTPException 400 ''Value for 'in' must be a list'')"
    by simp
  from build_statement_filter_failure [OF g m this]
  show "query_body e tbl req st = (Inl (HTTPException 400 ''Value for 'in' must be a list''), st)"
    by (rule query_body_not_built)
next
  assume a: "f \<in> set (items (filters req))" "lower e (f_op f) = ''in''" "\<not> isinstance_list (f_value f)"
  have no: "\<And>tbl'. \<forall>stmt. build_statement e tbl' req \<noteq> Inr stmt"
  proof (intro allI notI)
    fix tbl' stmt assume "build_statement e tbl' req = Inr stmt"
    from build_statement_parts [OF this]
    have "filter_clauses e tbl' (items (filters req)) = Inr (whereclauses stmt)" by blast
    from filter_clauses_all_compile [OF this a(1)] apply_filter_clause_in_not_list [OF a(2,3), of tbl']
    show False by (auto split: option.splits)
  qed
  have body: "\<And>tbl' st'. (\<exists>x. fst (query_body e tbl' req st') = Inl x) \<and> snd (query_body e tbl' req st') = st'"
  proof -
    fix tbl' st'
    from no [of tbl'] obtain h where "build_statement e tbl' req = Inl h"
      by (cases "build_statement e tbl' req") auto
    then show "(\<exists>x. fst (query_body e tbl' req st') = Inl x) \<and> snd (query_body e tbl' req st') = st'"
      by (simp add: query_body_not_built)
  qed
  from body [of tbl st] show "\<exists>x. fst (query_body e tbl req st) = Inl x"
    and "snd (query_body e tbl req st) = st" by simp_all
  show "\<exists>x. fst (query e req st) = Inl x"
  proof (cases "fst (get_table e (table req) st)")
    case (Inl err)
    from query_table_error [OF this] show ?thesis by simp
  next
    case (Inr tbl')
    from query_table_ok [OF this] body [of tbl' "snd (get_table e (table req) st)"]
    show ?thesis by simp
  qed
  show "executed (snd (query e req st)) = executed st"
  proof (cases "fst (get_table e (table req) st)")
    case (Inl err)
    from query_table_error [OF this] show ?thesis by (simp add: get_table_executed)
  next
    case (Inr tbl')
    from query_table_ok [OF this] body [of tbl' "snd (get_table e (table req) st)"]
    show ?thesis by (simp add: get_table_executed)
  qed
qed

theorem in_requires_list_witness:
  "apply_filter_clause demo_env sales \<lparr>f_column = ''status'', f_op = ''IN'', f_value = PStr ''paid''\<rparr>
     = Inl (HTTPException 400 ''Value for 'in' must be a list'')
   \<and> query_body demo_env sales
        \<lparr>table = ''sales'', group_by = None, metrics = None,
         filters = Some [\<lparr>f_column = ''status'', f_op = ''in'', f_value = PList [PStr ''a'', PStr ''b'']\<rparr>,
                         \<lparr>f_column = ''status'', f_op = ''IN'', f_value = PStr ''paid''\<rparr>],
         limit = Some 1000\<rparr> init_state
     = (Inl (HTTPException 400 ''Value for 'in' must be a list''), init_state)
   \<and> (\<exists>x. fst (query demo_env
        \<lparr>table = ''sales'', group_by = None, metrics = None,
         filters = Some [\<lparr>f_column = ''status'', f_op = ''in'', f_value = PList [PStr ''a'', PStr ''b'']\<rparr>,
                         \<lparr>f_column = ''status'', f_op = ''IN'', f_value = PStr ''paid''\<rparr>],
         limit = Some 1000\<rparr> init_state) = Inl x)
   \<and> executed (snd (query demo_env
        \<lparr>table = ''sales'', group_by = None, metrics = None,
         filters = Some [\<lparr>f_column = ''status'', f_op = ''in'', f_value = PList [PStr ''a'', PStr ''b'']\<rparr>,
                         \<lparr>f_column = ''status'', f_op = ''IN'', f_value = PStr ''paid''\<rparr>],
         limit = Some 1000\<rparr> init_state)) = []"
proof -
  let ?first = "\<lparr>f_column = ''status'', f_op = ''in'', f_value = PList [PStr ''a'', PStr ''b'']\<rparr>"
  let ?flt = "\<lparr>f_column = ''status'', f_op = ''IN'', f_value = PStr ''paid''\<rparr>"
  let ?rq = "\<lparr>table = ''sales'', group_by = None, metrics = None,
         filters = Some [?first, ?flt], limit = Some 1000\<rparr>"
  let ?column = "\<lparr>col_name = ''status'', col_type = ''VARCHAR''\<rparr>"
  let ?compiled = "BinaryExpression (ColumnClause ?column) Op_in (BindParameter (PList [PStr ''a'', PStr ''b'']))"
  note T = in_requires_list [of sales ?flt ?column demo_env ?rq "[]" "[]" "[?first]" "[]" "[?compiled]" init_state]
  have h1: "c_get sales (f_column ?flt) = Some ?column" by (simp add: sales_columns)
  have h2: "lower demo_env (f_op ?flt) = ''in''" by (simp add: demo_env_fields lower_char_def)
  have h3: "\<not> isinstance_list (f_value ?flt)" by simp
  have h5: "group_loop demo_env sales (items (group_by ?rq)) [] = Inr []" by simp
  have h6: "metrics_loop demo_env sales (items (metrics ?rq)) [] = Inr []" by simp
  have h7: "filters ?rq = Some ([?first] @ ?flt # [])" by simp
  have h8: "filter_clauses demo_env sales [?first] = Inr [?compiled]"
    by (simp add: apply_filter_clause_def sales_columns column_in_def demo_env_fields lower_char_def)
  have h9: "?flt \<in> set (items (filters ?rq))" by simp
  from T h1 h2 h3
  have A: "apply_filter_clause demo_env sales ?flt = Inl (HTTPException 400 ''Value for 'in' must be a list'')"
    by blast
  from T h1 h2 h3 h5 h6 h7 h8
  have B: "query_body demo_env sales ?rq init_state =
       (Inl (HTTPException 400 ''Value for 'in' must be a list''), init_state)"
    by blast
  from T h9 h2 h3
  have C: "\<exists>x. fst (query demo_env ?rq init_state) = Inl x" by blast
  from T h9 h2 h3
  have D: "executed (snd (query demo_env ?rq init_state)) = executed init_state"
    by blast
  have "executed init_state = []" by (simp add: executed_def init_state_def)
  with A B C D show ?thesis by simp
qed




text \<open>
  C8. A request built without a \<^verbatim>\<open>limit\<close> field has limit 1000, and a given value,
  \<^verbatim>\<open>null\<close> included, is kept. The built statement has no limit part when the
  request's limit is \<^verbatim>\<open>None\<close> or 0, and the limit \<open>n\<close> for every other value \<open>n\<close>.
\<close>

theorem row_limit:
  "limit (QueryRequest_init t g m f Absent) = Some 1000
   \<and> limit (QueryRequest_init t g m f (Given l)) = l
   \<and> (build_statement e tbl req = Inr stmt \<longrightarrow>
        (limit req = None \<or> limit req = Some 0 \<longrightarrow> limit_clause stmt = None) \<and>
        (\<forall>n. limit req = Some n \<longrightarrow> n \<noteq> 0 \<longrightarrow> limit_clause stmt = Some n))"
proof (intro conjI impI allI)
  show "limit (QueryRequest_init t g m f Absent) = Some 1000"
    by (simp add: QueryRequest_init_def)
  show "limit (QueryRequest_init t g m f (Given l)) = l"
    by (simp add: QueryRequest_init_def)
next
  assume b: "build_statement e tbl req = Inr stmt" and "limit req = None \<or> limit req = Some 0"
  with build_statement_limit [OF b] show "limit_clause stmt = None" by auto
next
  fix n assume b: "build_statement e tbl req = Inr stmt" and "limit req = Some n" and "n \<noteq> 0"
  with build_statement_limit [OF b] show "limit_clause stmt = Some n" by simp
qed

theorem row_limit_witness:
  "(\<exists>stmt. build_statement demo_env sales (QueryRequest_init ''sales'' Absent Absent Absent Absent) = Inr stmt
       \<and> limit_clause stmt = Some 1000)
   \<and> (\<exists>stmt. build_statement demo_env sales (QueryRequest_init ''sales'' Absent Absent Absent (Given None)) = Inr stmt
       \<and> limit_clause stmt = None)
   \<and> (\<exists>stmt. build_statement demo_env sales (QueryRequest_init ''sales'' Absent Absent Absent (Given (Some 0))) = Inr stmt
       \<and> limit_clause stmt = None)
   \<and> (\<exists>stmt. build_statement demo_env sales (QueryRequest_init ''sales'' Absent Absent Absent (Given (Some 25))) = Inr stmt
       \<and> limit_clause stmt = Some 25)"
proof -
  have plain: "\<And>l. \<exists>stmt. build_statement demo_env sales (QueryRequest_init ''sales'' Absent Absent Absent l) = Inr stmt"
    by (simp add: build_statement_plain QueryRequest_init_def)
  have r: "\<And>l stmt. build_statement demo_env sales (QueryRequest_init ''sales'' Absent Absent Absent l) = Inr stmt \<Longrightarrow>
      (field_default (Some 1000) l = None \<or> field_default (Some 1000) l = Some 0 \<longrightarrow> limit_clause stmt = None) \<and>
      (\<forall>n. field_default (Some 1000) l = Some n \<longrightarrow> n \<noteq> 0 \<longrightarrow> limit_clause stmt = Some n)"
    using row_limit [of "''sales''" Absent Absent Absent _ demo_env sales
        "QueryRequest_init ''sales'' Absent Absent Absent _"]
    by (simp add: QueryRequest_init_def)
  from plain [of Absent] r [of Absent] have 1: "\<exists>stmt. build_statement demo_env sales (QueryRequest_init ''sales'' Absent Absent Absent Absent) = Inr stmt
       \<and> limit_clause stmt = Some 1000" by fastforce
  from plain [of "Given None"] r [of "Given None"] have 2: "\<exists>stmt. build_statement demo_env sales (QueryRequest_init ''sales'' Absent Absent Absent (Given None)) = Inr stmt
       \<and> limit_clause stmt = None" by fastforce
  from plain [of "Given (Some 0)"] r [of "Given (Some 0)"] have 3: "\<exists>stmt. build_statement demo_env sales (QueryRequest_init ''sales'' Absent Absent Absent (Given (Some 0))) = Inr stmt
       \<and> limit_clause stmt = None" by fastforce
  from plain [of "Given (Some 25)"] r [of "Given (Some 25)"] have 4: "\<exists>stmt. build_statement demo_env sales (QueryRequest_init ''sales'' Absent Absent Absent (Given (Some 25))) = Inr stmt
       \<and> limit_clause stmt = Some 25" by fastforce
  from 1 2 3 4 show ?thesis by blast
qed

text \<open>
  C9. A metric \<^verbatim>\<open>count\<close> on a column name that the table does not have compiles: the
  lookup gives \<^verbatim>\<open>None\<close>, for which \<^verbatim>\<open>func.count\<close> builds \<^verbatim>\<open>count(*)\<close>, under the alias
  given or \<^verbatim>\<open>count_\<close> followed by the name. In a request that builds, whatever its
  other metrics, grouping and filters, this column is in the select list and the
  statement is sent to the database; and the metric does not stand in the way: when
  the grouping, the other metrics and the filters compile, the statement is built
  with the column in the place of the metric. The same name under \<^verbatim>\<open>sum\<close>, \<^verbatim>\<open>avg\<close>,
  \<^verbatim>\<open>max\<close> or \<^verbatim>\<open>min\<close> fails with \<^verbatim>\<open>Unknown metric column\<close>, and a request with such a
  metric fails with status 400.
\<close>

theorem count_unknown_column:
  "(lower e (m_op m) = ''count'' \<longrightarrow> m_column m = Some cn \<longrightarrow> cn \<noteq> [] \<longrightarrow> c_get tbl cn = None \<longrightarrow>
      func_count (c_get tbl cn) = FunctionElement ''count'' []
      \<and> metric_expr e tbl m =
          Inr (Label (FunctionElement ''count'' [])
                 (if truthy_str (m_alias m) then the (m_alias m) else ''count_'' @ cn))
      \<and> (m \<in> set (items (metrics req)) \<longrightarrow> build_statement e tbl req = Inr stmt \<longrightarrow>
           Label (FunctionElement ''count'' [])
             (if truthy_str (m_alias m) then the (m_alias m) else ''count_'' @ cn) \<in> set (columns stmt)
           \<and> executed (snd (query_body e tbl req st)) = executed st @ [stmt])
      \<and> (metrics req = Some (ms @ m # ms') \<longrightarrow>
           group_loop e tbl (items (group_by req)) [] = Inr group_cols \<longrightarrow>
           list_all2 (\<lambda>m x. metric_expr e tbl m = Inr x) ms xs \<longrightarrow>
           list_all2 (\<lambda>m x. metric_expr e tbl m = Inr x) ms' xs' \<longrightarrow>
           filter_clauses e tbl (items (filters req)) = Inr cls \<longrightarrow>
           build_statement e tbl req =
             Inr \<lparr>columns = group_cols @ xs @
                     [Label (FunctionElement ''count'' [])
                        (if truthy_str (m_alias m) then the (m_alias m) else ''count_'' @ cn)] @ xs',
                  select_from = tbl, whereclauses = cls, group_by_clauses = group_cols,
                  limit_clause = (if truthy_int (limit req) then limit req else None)\<rparr>))
   \<and> (lower e (m_op m') \<in> {''sum'', ''avg'', ''max'', ''min''} \<longrightarrow> m_column m' = Some cn \<longrightarrow>
        cn \<noteq> [] \<longrightarrow> c_get tbl cn = None \<longrightarrow>
        metric_expr e tbl m' = Inl (HTTPException 400 (''Unknown metric column: '' @ cn))
        \<and> (m' \<in> set (items (metrics req)) \<longrightarrow>
             (\<exists>d. build_statement e tbl req = Inl (HTTPException 400 d))))"
proof (intro conjI impI)
  assume a: "lower e (m_op m) = ''count''" "m_column m = Some cn" "cn \<noteq> []" "c_get tbl cn = None"
  let ?ex = "Label (FunctionElement ''count'' [])
               (if truthy_str (m_alias m) then the (m_alias m) else ''count_'' @ cn)"
  from a(4) show "func_count (c_get tbl cn) = FunctionElement ''count'' []" by simp
  from a show x: "metric_expr e tbl m = Inr ?ex" by (rule metric_expr_count_unknown)
  {
    assume i: "m \<in> set (items (metrics req))" and b: "build_statement e tbl req = Inr stmt"
    from build_statement_parts [OF b] obtain group_cols sel_cols0 where
      s: "metrics_loop e tbl (items (metrics req)) [] = Inr sel_cols0" and
      c: "columns stmt = group_cols @ (if sel_cols0 = [] then [Label (FunctionElement ''count'' []) ''count''] else sel_cols0)"
      by blast
    from metrics_loop_Inr [OF s]
    have l: "list_all2 (\<lambda>m x. metric_expr e tbl m = Inr x) (items (metrics req)) sel_cols0" by simp
    with i x have "?ex \<in> set sel_cols0"
      by (auto simp: list_all2_conv_all_nth in_set_conv_nth)
    with c show "?ex \<in> set (columns stmt)" by auto
    from query_body_built [OF b]
    show "executed (snd (query_body e tbl req st)) = executed st @ [stmt]" by simp
  }
  {
    assume mr: "metrics req = Some (ms @ m # ms')"
      and g: "group_loop e tbl (items (group_by req)) [] = Inr group_cols"
      and l: "list_all2 (\<lambda>m x. metric_expr e tbl m = Inr x) ms xs"
      and l': "list_all2 (\<lambda>m x. metric_expr e tbl m = Inr x) ms' xs'"
      and f: "filter_clauses e tbl (items (filters req)) = Inr cls"
    from l l' x have "list_all2 (\<lambda>m x. metric_expr e tbl m = Inr x) (ms @ m # ms') (xs @ ?ex # xs')"
      by (simp add: list_all2_appendI)
    from metrics_loop_all [OF this, of "[]"] mr
    have s: "metrics_loop e tbl (items (metrics req)) [] = Inr (xs @ ?ex # xs')" by simp
    from build_statement_built [OF g s f]
    show "build_statement e tbl req =
             Inr \<lparr>columns = group_cols @ xs @ [?ex] @ xs',
                  select_from = tbl, whereclauses = cls, group_by_clauses = group_cols,
                  limit_clause = (if truthy_int (limit req) then limit req else None)\<rparr>"
      by simp
  }
next
  assume "lower e (m_op m') \<in> {''sum'', ''avg'', ''max'', ''min''}"
    and c: "m_column m' = Some cn" "cn \<noteq> []" "c_get tbl cn = None"
  then have "lower e (m_op m') \<noteq> ''count''" by auto
  from metric_expr_other_unknown [OF this c]
  show u: "metric_expr e tbl m' = Inl (HTTPException 400 (''Unknown metric column: '' @ cn))" .
  assume "m' \<in> set (items (metrics req))"
  from failing_metric_fails_build [OF this u]
  show "\<exists>d. build_statement e tbl req = Inl (HTTPException 400 d)" .
qed

theorem count_unknown_column_witness:
  "metric_expr demo_env sales \<lparr>m_op = ''COUNT'', m_column = Some ''price'', m_alias = None\<rparr> =
     Inr (Label (FunctionElement ''count'' []) ''count_price'')
   \<and> build_statement demo_env sales
        \<lparr>table = ''sales'', group_by = Some [''region''],
         metrics = Some [\<lparr>m_op = ''sum'', m_column = Some ''revenue'', m_alias = None\<rparr>,
                         \<lparr>m_op = ''COUNT'', m_column = Some ''price'', m_alias = None\<rparr>,
                         \<lparr>m_op = ''max'', m_column = Some ''revenue'', m_alias = Some ''top''\<rparr>],
         filters = None, limit = Some 1000\<rparr> =
       Inr \<lparr>columns = [ColumnClause \<lparr>col_name = ''region'', col_type = ''VARCHAR''\<rparr>,
                        Label (FunctionElement ''sum'' [ColumnClause \<lparr>col_name = ''revenue'', col_type = ''NUMERIC''\<rparr>]) ''sum_revenue'',
                        Label (FunctionElement ''count'' []) ''count_price'',
                        Label (FunctionElement ''max'' [ColumnClause \<lparr>col_name = ''revenue'', col_type = ''NUMERIC''\<rparr>]) ''top''],
            select_from = sales, whereclauses = [],
            group_by_clauses = [ColumnClause \<lparr>col_name = ''region'', col_type = ''VARCHAR''\<rparr>],
            limit_clause = Some 1000\<rparr>
   \<and> (\<exists>stmt. executed (snd (query_body demo_env sales
          \<lparr>table = ''sales'', group_by = Some [''region''],
           metrics = Some [\<lparr>m_op = ''sum'', m_column = Some ''revenue'', m_alias = None\<rparr>,
                           \<lparr>m_op = ''COUNT'', m_column = Some ''price'', m_alias = None\<rparr>,
                           \<lparr>m_op = ''max'', m_column = Some ''revenue'', m_alias = Some ''top''\<rparr>],
           filters = None, limit = Some 1000\<rparr> init_state)) = [stmt]
        \<and> Label (FunctionElement ''count'' []) ''count_price'' \<in> set (columns stmt))
   \<and> metric_expr demo_env sales \<lparr>m_op = ''sum'', m_column = Some ''price'', m_alias = None\<rparr> =
       Inl (HTTPException 400 ''Unknown metric column: price'')
   \<and> (\<exists>d. build_statement demo_env sales
          \<lparr>table = ''sales'', group_by = None,
           metrics = Some [\<lparr>m_op = ''COUNT'', m_column = Some ''price'', m_alias = None\<rparr>,
                           \<lparr>m_op = ''sum'', m_column = Some ''price'', m_alias = None\<rparr>],
           filters = None, limit = None\<rparr> = Inl (HTTPException 400 d))"
proof -
  let ?ma = "\<lparr>m_op = ''sum'', m_column = Some ''revenue'', m_alias = None\<rparr>"
  let ?mb = "\<lparr>m_op = ''COUNT'', m_column = Some ''price'', m_alias = None\<rparr>"
  let ?mc = "\<lparr>m_op = ''max'', m_column = Some ''revenue'', m_alias = Some ''top''\<rparr>"
  let ?md = "\<lparr>m_op = ''sum'', m_column = Some ''price'', m_alias = None\<rparr>"
  let ?revenue = "ColumnClause \<lparr>col_name = ''revenue'', col_type = ''NUMERIC''\<rparr>"
  let ?region = "ColumnClause \<lparr>col_name = ''region'', col_type = ''VARCHAR''\<rparr>"
  let ?xa = "Label (FunctionElement ''sum'' [?revenue]) ''sum_revenue''"
  let ?xb = "Label (FunctionElement ''count'' []) ''count_price''"
  let ?xc = "Label (FunctionElement ''max'' [?revenue]) ''top''"
  let ?rq = "\<lparr>table = ''sales'', group_by = Some [''region''], metrics = Some [?ma, ?mb, ?mc],
           filters = None, limit = Some 1000\<rparr>"
  let ?rb = "\<lparr>table = ''sales'', group_by = None, metrics = Some [?mb, ?md], filters = None, limit = None\<rparr>"
  let ?st = "\<lparr>columns = [?region, ?xa, ?xb, ?xc], select_from = sales, whereclauses = [],
            group_by_clauses = [?region], limit_clause = Some 1000\<rparr>"
  have lb: "lower demo_env (m_op ?mb) = ''count''"
    by (simp add: demo_env_fields lower_char_def)
  have ld: "lower demo_env (m_op ?md) \<in> {''sum'', ''avg'', ''max'', ''min''}"
    by (simp add: demo_env_fields lower_char_def)
  have cb: "m_column ?mb = Some ''price''" "m_column ?md = Some ''price''" "''price'' \<noteq> []"
    by simp_all
  have xa: "metric_expr demo_env sales ?ma = Inr ?xa"
    by (simp add: metric_expr_def sales_columns demo_env_fields lower_char_def)
  have xc: "metric_expr demo_env sales ?mc = Inr ?xc"
    by (simp add: metric_expr_def sales_columns demo_env_fields lower_char_def)
  have g: "group_loop demo_env sales (items (group_by ?rq)) [] = Inr [?region]"
    by (simp add: is_raw_def count_spaces_def sales_columns)
  have f: "filter_clauses demo_env sales (items (filters ?rq)) = Inr []" by simp
  note T = count_unknown_column [where e = demo_env and tbl = sales and cn = "''price''"
      and m = ?mb and m' = ?md]
  from T [where req = ?rq] lb cb sales_columns(5)
  have 1: "metric_expr demo_env sales ?mb =
      Inr (Label (FunctionElement ''count'' [])
             (if truthy_str (m_alias ?mb) then the (m_alias ?mb) else ''count_'' @ ''price''))"
    by blast
  have mr: "metrics ?rq = Some ([?ma] @ ?mb # [?mc])" by simp
  have la: "list_all2 (\<lambda>m x. metric_expr demo_env sales m = Inr x) [?ma] [?xa]"
    and lc: "list_all2 (\<lambda>m x. metric_expr demo_env sales m = Inr x) [?mc] [?xc]"
    by (simp_all add: xa xc)
  from T [where req = ?rq and ms = "[?ma]" and ms' = "[?mc]" and xs = "[?xa]" and xs' = "[?xc]"
      and group_cols = "[?region]" and cls = "[]"] lb cb sales_columns(5) mr g la lc f
  have "build_statement demo_env sales ?rq =
             Inr \<lparr>columns = [?region] @ [?xa] @
                     [Label (FunctionElement ''count'' [])
                        (if truthy_str (m_alias ?mb) then the (m_alias ?mb) else ''count_'' @ ''price'')] @ [?xc],
                  select_from = sales, whereclauses = [], group_by_clauses = [?region],
                  limit_clause = (if truthy_int (limit ?rq) then limit ?rq else None)\<rparr>"
    by blast
  then have 2: "build_statement demo_env sales ?rq = Inr ?st" by simp
  have i: "?mb \<in> set (items (metrics ?rq))" by simp
  from T [where req = ?rq and stmt = ?st and st = init_state] lb cb sales_columns(5) i 2
  have "Label (FunctionElement ''count'' [])
             (if truthy_str (m_alias ?mb) then the (m_alias ?mb) else ''count_'' @ ''price'') \<in> set (columns ?st)
      \<and> executed (snd (query_body demo_env sales ?rq init_state)) = executed init_state @ [?st]"
    by blast
  then have 3: "\<exists>stmt. executed (snd (query_body demo_env sales ?rq init_state)) = [stmt]
        \<and> ?xb \<in> set (columns stmt)"
    by (simp add: executed_def init_state_def)
  from T [where req = ?rb] ld cb sales_columns(5)
  have 4: "metric_expr demo_env sales ?md = Inl (HTTPException 400 (''Unknown metric column: '' @ ''price''))"
    by blast
  have j: "?md \<in> set (items (metrics ?rb))" by simp
  from T [where req = ?rb] ld cb sales_columns(5) j
  have 5: "\<exists>d. build_statement demo_env sales ?rb = Inl (HTTPException 400 d)"
    by blast
  from 1 2 3 4 5 show ?thesis by simp
qed

text \<open>
  C10. A resolution that fails leaves \<^verbatim>\<open>TABLE_CACHE\<close> as it was and without an entry
  for the name, so that the next resolution of the name opens a connection and
  reflects again. Every resolution of a name that is not in the cache fails, since
  the toolkit refuses the reflection before the cache is written; a sequence of
  resolutions therefore never changes the cache, and in a process that starts with
  the empty cache it stays empty: no name is ever mapped to anything but a
  successfully reflected table.
\<close>

theorem failed_resolution_not_cached:
  "(fst (get_table e n st) = Inl err \<longrightarrow>
      TABLE_CACHE (snd (get_table e n st)) = TABLE_CACHE st \<and>
      TABLE_CACHE (snd (get_table e n st)) n = None \<and>
      io (snd (get_table e' n (snd (get_table e n st)))) =
        io (snd (get_table e n st)) @ [Reflect n])
   \<and> (TABLE_CACHE st n = None \<longrightarrow> (\<exists>err'. fst (get_table e n st) = Inl err'))
   \<and> TABLE_CACHE (resolutions steps st) = TABLE_CACHE st
   \<and> TABLE_CACHE (resolutions steps init_state) = Map.empty"
proof (intro conjI impI)
  assume f: "fst (get_table e n st) = Inl err"
  show "TABLE_CACHE (snd (get_table e n st)) = TABLE_CACHE st"
    by (rule get_table_cache)
  from get_table_Inl [OF f]
  show c: "TABLE_CACHE (snd (get_table e n st)) n = None"
    by (simp add: get_table_cache)
  from get_table_miss [OF c, of e']
  show "io (snd (get_table e' n (snd (get_table e n st)))) =
        io (snd (get_table e n st)) @ [Reflect n]"
    by simp
next
  assume "TABLE_CACHE st n = None"
  from get_table_miss [OF this, of e] show "\<exists>err'. fst (get_table e n st) = Inl err'"
    by simp
next
  show "TABLE_CACHE (resolutions steps st) = TABLE_CACHE st"
    by (rule resolutions_cache)
  show "TABLE_CACHE (resolutions steps init_state) = Map.empty"
    by (simp add: resolutions_cache init_state_def)
qed

theorem failed_resolution_not_cached_witness:
  "fst (get_table down_env ''sales'' init_state) = Inl ''connection refused''
   \<and> TABLE_CACHE (snd (get_table down_env ''sales'' init_state)) = Map.empty
   \<and> io (snd (get_table demo_env ''sales'' (snd (get_table down_env ''sales'' init_state)))) =
       [Reflect ''sales'', Reflect ''sales'']
   \<and> (\<exists>err'. fst (get_table demo_env ''sales'' init_state) = Inl err')
   \<and> TABLE_CACHE (resolutions [(down_env, ''sales''), (demo_env, ''sales'')] init_state) = Map.empty"
proof -
  have m: "TABLE_CACHE init_state ''sales'' = None" by (simp add: init_state_def)
  have g: "get_table down_env ''sales'' init_state =
      (Inl ''connection refused'', init_state\<lparr>io := io init_state @ [Reflect ''sales'']\<rparr>)"
    using get_table_miss [OF m, of down_env] by (simp add: demo_env_fields)
  then have f: "fst (get_table down_env ''sales'' init_state) = Inl ''connection refused''"
    by simp
  note T = failed_resolution_not_cached [of down_env "''sales''" init_state "''connection refused''" demo_env]
  from T f have 1: "TABLE_CACHE (snd (get_table down_env ''sales'' init_state)) = TABLE_CACHE init_state"
    by blast
  from T f have 2: "io (snd (get_table demo_env ''sales'' (snd (get_table down_env ''sales'' init_state)))) =
        io (snd (get_table down_env ''sales'' init_state)) @ [Reflect ''sales'']"
    by blast
  from failed_resolution_not_cached [of demo_env "''sales''" init_state] m
  have 3: "\<exists>err'. fst (get_table demo_env ''sales'' init_state) = Inl err'" by blast
  from failed_resolution_not_cached [of _ _ _ _ _ "[(down_env, ''sales''), (demo_env, ''sales'')]"]
  have 4: "TABLE_CACHE (resolutions [(down_env, ''sales''), (demo_env, ''sales'')] init_state) = Map.empty"
    by blast
  from f 1 2 3 4 g show ?thesis by (simp add: init_state_def)
qed

end
